theory Spec2Isabelle
  imports Main
begin

section \<open>JavaScript strings\<close>

text \<open>
  The string methods the build tool relies on, on \<open>string\<close> (a list of characters).
  Indices are \<open>int\<close>, since \<open>indexOf\<close> answers \<open>-1\<close> when there is no occurrence and
  \<open>substring\<close> accepts (and clamps) negative arguments.
\<close>

definition js_startsWith :: "string \<Rightarrow> string \<Rightarrow> bool" where
  "js_startsWith s p = (take (length p) s = p)"

fun js_indexOf :: "string \<Rightarrow> string \<Rightarrow> int" where
  "js_indexOf [] p = (if p = [] then 0 else - 1)"
| "js_indexOf (c # s) p =
     (if js_startsWith (c # s) p then 0
      else (let r = js_indexOf s p in if r < 0 then - 1 else r + 1))"

fun js_lastIndexOf :: "string \<Rightarrow> string \<Rightarrow> int" where
  "js_lastIndexOf [] p = (if p = [] then 0 else - 1)"
| "js_lastIndexOf (c # s) p =
     (let r = js_lastIndexOf s p
      in if 0 \<le> r then r + 1 else if js_startsWith (c # s) p then 0 else - 1)"

definition clampIndex :: "string \<Rightarrow> int \<Rightarrow> nat" where
  "clampIndex s i = (if i < 0 then 0 else min (nat i) (length s))"

definition js_substring :: "string \<Rightarrow> int \<Rightarrow> int \<Rightarrow> string" where
  \<comment> \<open>\<open>s.substring(a, b)\<close>: both ends clamped to \<open>[0, length]\<close>, swapped when \<open>a > b\<close>\<close>
  "js_substring s a b =
     (let x = clampIndex s a; y = clampIndex s b
      in take (max x y - min x y) (drop (min x y) s))"

definition js_substringFrom :: "string \<Rightarrow> int \<Rightarrow> string" where
  \<comment> \<open>\<open>s.substring(a)\<close>\<close>
  "js_substringFrom s a = drop (clampIndex s a) s"

section \<open>Regular expressions\<close>

text \<open>
  A regular expression is data, matched by derivatives. Only what
  \<open>DependencyVersionRegex\<close> needs is present: the classes \<open>\d\<close> and \<open>\w\<close>, literal
  characters, sequence, alternative and iteration. The source's pattern is anchored at
  both ends (\<open>^ ... $\<close>, no multi-line flag), so \<open>String.match\<close> answers non-null exactly
  when the whole string is in the language.
\<close>

datatype cclass = Digit | WordChar | Lit char

datatype regex = Fail | Eps | Sym cclass | Alt regex regex | Cat regex regex | Star regex

fun in_class :: "cclass \<Rightarrow> char \<Rightarrow> bool" where
  "in_class Digit c = (c \<in> set ''0123456789'')"
| "in_class WordChar c =
     (c \<in> set ''abcdefghijklmnopqrstuvwxyzABCDEFGHIJKLMNOPQRSTUVWXYZ0123456789_'')"
| "in_class (Lit d) c = (c = d)"

fun nullable :: "regex \<Rightarrow> bool" where
  "nullable Fail = False"
| "nullable Eps = True"
| "nullable (Sym k) = False"
| "nullable (Alt r s) = (nullable r \<or> nullable s)"
| "nullable (Cat r s) = (nullable r \<and> nullable s)"
| "nullable (Star r) = True"

fun deriv :: "char \<Rightarrow> regex \<Rightarrow> regex" where
  "deriv c Fail = Fail"
| "deriv c Eps = Fail"
| "deriv c (Sym k) = (if in_class k c then Eps else Fail)"
| "deriv c (Alt r s) = Alt (deriv c r) (deriv c s)"
| "deriv c (Cat r s) =
     (if nullable r then Alt (Cat (deriv c r) s) (deriv c s) else Cat (deriv c r) s)"
| "deriv c (Star r) = Cat (deriv c r) (Star r)"

fun regex_match :: "regex \<Rightarrow> string \<Rightarrow> bool" where
  "regex_match r [] = nullable r"
| "regex_match r (c # s) = regex_match (deriv c r) s"

definition Plus :: "regex \<Rightarrow> regex" where
  "Plus r = Cat r (Star r)"

definition Opt :: "regex \<Rightarrow> regex" where
  "Opt r = Alt Eps r"

definition DependencyVersionRegex :: regex where
  \<comment> \<open>\<open>/^\d+\.\d+\.\d+(\-\w+(\.\d+)?)?$/g\<close>\<close>
  "DependencyVersionRegex =
     Cat (Plus (Sym Digit)) (Cat (Sym (Lit CHR ''.'')) (Cat (Plus (Sym Digit))
       (Cat (Sym (Lit CHR ''.'')) (Cat (Plus (Sym Digit))
         (Opt (Cat (Sym (Lit CHR ''-'')) (Cat (Plus (Sym WordChar))
           (Opt (Cat (Sym (Lit CHR ''.'')) (Plus (Sym Digit)))))))))))"

section \<open>Errors\<close>

text \<open>
  What the functions below throw, or reject a promise with. A function that can fail
  returns a sum, \<open>Inl\<close> the error. \<open>NotModelled\<close> is no error of the program: it marks the
  one place where the model stops short of what lodash and the runtime do.
\<close>

datatype js_error =
    TypeError
  | SyntaxError
  | FilesystemError
  | BuildDidntPassValidation
  | NoDependenciesValidated
  | InvalidRepositoryName string
  | BranchNotFound string string
  | CloneFailed string
  | NothingResolved
  | InvalidVersion string
  | UnknownModuleType string
  | InvalidModuleName string
  | UnableToFindModule string
  | RejectedWithoutReason
  | NotModelled

section \<open>Plain objects\<close>

text \<open>
  A property read \<open>obj[name]\<close> of a plain object answers the object's own member, or
  else the member \<open>Object.prototype\<close> has under that name, or else \<open>undefined\<close>. Every
  member of \<open>Object.prototype\<close> is a built-in (a function, or \<open>Object.prototype\<close> itself
  under \<open>__proto__\<close>): it is neither \<open>null\<close> nor \<open>undefined\<close>, it is truthy, and it is not
  a string. An object parsed from JSON has its keys as own members, whatever their
  names. What the built-ins hold in turn belongs to the runtime and is a parameter:
  \<open>builtins [p\<^sub>1, ..., p\<^sub>n]\<close> says what reading the members \<open>p\<^sub>2, ..., p\<^sub>n\<close> one after the
  other comes to, starting from the built-in \<open>Object.prototype\<close> has under \<open>p\<^sub>1\<close>: a value
  that is \<open>null\<close> or \<open>undefined\<close>, another falsy value, a truthy value, or a getter that
  throws.
\<close>

definition ObjectPrototype :: "string list" where
  "ObjectPrototype = [''constructor'', ''hasOwnProperty'', ''isPrototypeOf'',
     ''propertyIsEnumerable'', ''toLocaleString'', ''toString'', ''valueOf'', ''__proto__'',
     ''__defineGetter__'', ''__defineSetter__'', ''__lookupGetter__'', ''__lookupSetter__'']"

datatype 'a member = Own 'a | Inherited | Missing

definition member_of :: "(string \<times> 'a) list \<Rightarrow> string \<Rightarrow> 'a member" where
  \<comment> \<open>\<open>obj[name]\<close>, the object given by its own members in key order\<close>
  "member_of obj name =
     (case map_of obj name of
        Some x \<Rightarrow> Own x
      | None \<Rightarrow> if name \<in> set ObjectPrototype then Inherited else Missing)"

definition read_key :: "(string \<rightharpoonup> 'a) \<Rightarrow> string \<Rightarrow> 'a member" where
  \<comment> \<open>\<open>obj[name]\<close>, the object given by its own members as a map\<close>
  "read_key obj name =
     (case obj name of
        Some x \<Rightarrow> Own x
      | None \<Rightarrow> if name \<in> set ObjectPrototype then Inherited else Missing)"

datatype js_read = ReadNil | ReadFalsy | ReadTruthy | ReadThrows

type_synonym builtins = "string list \<Rightarrow> js_read"

definition digits_value :: "string \<Rightarrow> int" where
  "digits_value s = foldl (\<lambda>n c. 10 * n + (of_char c - 48)) 0 s"

definition isIndex :: "string \<Rightarrow> bool" where
  \<comment> \<open>lodash's \<open>isIndex\<close> on a string: \<open>/^(?:0|[1-9]\d*)$/\<close> and below \<open>MAX_SAFE_INTEGER\<close>\<close>
  "isIndex s =
     (s \<noteq> [] \<and> list_all (\<lambda>c. c \<in> set ''0123456789'') s
      \<and> (s = ''0'' \<or> \<not> js_startsWith s ''0'') \<and> digits_value s < 9007199254740991)"

section \<open>The dependency validator\<close>

subsection \<open>Data\<close>

text \<open>
  Objects are records; a JSON object of version strings is an association list of its
  own members in key order, read with \<open>member_of\<close>. A value that may be \<open>null\<close> or
  \<open>undefined\<close> is an \<open>option\<close>.
\<close>

record package_details =
  dependencies :: "(string \<times> string) list"
  devDependencies :: "(string \<times> string) list"
  peerDependencies :: "(string \<times> string) list"

record module_info =
  m_name :: string
  m_type :: string
  m_path :: string
  m_package :: package_details

record browser =
  b_name :: string
  b_package :: string
  b_modules :: "module_info list"
  b_extension_package :: package_details

record environment =
  e_name :: string

record dependency =
  d_name :: "string option"
  d_path :: "string option"

text \<open>
  What the validator reads from Node: \<open>fs-extra\<close> and \<open>path\<close>. They are not code of the
  repository, so they are parameters. \<open>statSync_isFile\<close> and \<open>readJsonSync_name\<close> answer
  \<open>None\<close> when the call throws; \<open>readJsonSync_name\<close> answers \<open>Some None\<close> for a manifest
  with no \<open>name\<close>. \<open>path_resolve_parent p\<close> is \<open>Path.resolve(p, '..')\<close>.
\<close>

record node_env =
  existsSync :: "string \<Rightarrow> bool"
  statSync_isFile :: "string \<Rightarrow> bool option"
  readJsonSync_name :: "string \<Rightarrow> string option option"
  path_dirname :: "string \<Rightarrow> string"
  path_join :: "string \<Rightarrow> string \<Rightarrow> string"
  path_resolve_parent :: "string \<Rightarrow> string"
  path_basename :: "string \<Rightarrow> string"

subsection \<open>parseDependency\<close>

text \<open>
  The \<open>while(true)\<close> loop of \<open>parseDependency\<close> walks up the directories until a
  \<open>package.json\<close> is found or \<open>Path.resolve(path, '..')\<close> is \<open>path\<close> itself. Whether it
  ends depends on the \<open>path\<close> library, so the loop is a partial function: \<open>None\<close> is a
  walk that never ends, \<open>Some None\<close> is the source's \<open>return null\<close>, and
  \<open>Some (Some (packagePath, path))\<close> is the \<open>break\<close>.
\<close>

partial_function (option) findPackage ::
  "node_env \<Rightarrow> string \<Rightarrow> (string \<times> string) option option" where
  "findPackage env path =
     (if existsSync env (path_join env path ''package.json'')
      then Some (Some (path_join env path ''package.json'', path))
      else if path_resolve_parent env path = path then Some None
      else findPackage env (path_resolve_parent env path))"

declare findPackage.simps [code]

definition parseDependency ::
  "node_env \<Rightarrow> string \<Rightarrow> (js_error + dependency option) option" where
  "parseDependency env request =
     (if \<not> existsSync env request then
        Some (Inr (Some \<lparr>
          d_name = Some (if js_substring request 0 (js_indexOf request ''/'') = []
                         then request
                         else js_substring request 0 (js_indexOf request ''/'')),
          d_path = None\<rparr>))
      else
        (case statSync_isFile env request of
           None \<Rightarrow> Some (Inl FilesystemError)
         | Some isFile \<Rightarrow>
            (case findPackage env (if isFile then path_dirname env request else request) of
               None \<Rightarrow> None
             | Some None \<Rightarrow> Some (Inr None)
             | Some (Some (packagePath, path)) \<Rightarrow>
                (case readJsonSync_name env packagePath of
                   None \<Rightarrow> Some (Inl FilesystemError)
                 | Some packageName \<Rightarrow>
                     Some (Inr (Some \<lparr>d_name = packageName, d_path = Some path\<rparr>))))))"

subsection \<open>The validator's state\<close>

text \<open>
  \<open>this.dependencies\<close> is a nested object
  \<open>browserName \<rightarrow> environmentName \<rightarrow> moduleName \<rightarrow> dependencyName \<rightarrow> true\<close>, written with
  lodash's \<open>Set\<close> (which creates the missing levels) and read level by level in
  \<open>finish\<close>. The maps hold the own members; \<open>Set\<close> writes own members of plain objects
  as long as no key on its path is a name \<open>Object.prototype\<close> has or \<open>prototype\<close> (lodash
  then writes into a built-in, or refuses, by its version) and no key after the first
  is an array index (lodash then creates an array). \<open>Logger\<close> calls are left out of the
  state: they change neither a returned value nor a field; the warnings of \<open>finish\<close> are
  its result here.
\<close>

type_synonym used_names = "string \<rightharpoonup> bool"
type_synonym used_modules = "string \<rightharpoonup> used_names"
type_synonym used_environments = "string \<rightharpoonup> used_modules"
type_synonym used_index = "string \<rightharpoonup> used_environments"

record validator =
  v_checked :: "string \<rightharpoonup> (string \<rightharpoonup> bool)"
  v_dependencies :: used_index
  v_error :: bool

definition new_validator :: validator where
  "new_validator = \<lparr>v_checked = Map.empty, v_dependencies = Map.empty, v_error = False\<rparr>"

definition or_empty :: "('k \<rightharpoonup> 'v) option \<Rightarrow> ('k \<rightharpoonup> 'v)" where
  "or_empty x = (case x of None \<Rightarrow> Map.empty | Some m \<Rightarrow> m)"

definition set_used :: "used_index \<Rightarrow> string \<Rightarrow> string \<Rightarrow> string \<Rightarrow> string \<Rightarrow> used_index" where
  \<comment> \<open>\<open>Set(this.dependencies, [b, e, m, n], true)\<close>\<close>
  "set_used d b e m n =
     d(b \<mapsto> (or_empty (d b))(e \<mapsto> (or_empty (or_empty (d b) e))(m \<mapsto>
       (or_empty (or_empty (or_empty (d b) e) m))(n \<mapsto> True))))"

definition settable :: "string \<Rightarrow> string \<Rightarrow> string \<Rightarrow> string \<Rightarrow> bool" where
  \<comment> \<open>the paths on which \<open>Set\<close> writes own members of plain objects only\<close>
  "settable b e m n =
     (list_all (\<lambda>k. k \<notin> set ObjectPrototype \<and> k \<noteq> ''prototype'') [b, e, m, n]
      \<and> \<not> isIndex e \<and> \<not> isIndex m \<and> \<not> isIndex n)"

definition get_used :: "used_index \<Rightarrow> string \<Rightarrow> string \<Rightarrow> string \<Rightarrow> string \<Rightarrow> bool" where
  \<comment> \<open>is \<open>this.dependencies[b][e][m][n]\<close> there and \<open>true\<close>\<close>
  "get_used d b e m n =
     (case d b of None \<Rightarrow> False | Some de \<Rightarrow>
        (case de e of None \<Rightarrow> False | Some dm \<Rightarrow>
           (case dm m of None \<Rightarrow> False | Some dn \<Rightarrow> dn n = Some True)))"

subsection \<open>Policy checks\<close>

definition IgnoredPackages :: "string list" where
  "IgnoredPackages = [''jquery'', ''react'', ''react-dom'', ''webpack'']"

text \<open>
  \<open>validateRequirement\<close> and \<open>validateModule\<close> return an object
  \<open>{dependency, valid}\<close>, except on a pinned version, where they set \<open>this._error\<close> and
  return the boolean \<open>false\<close>. The declared version is read as \<open>collection[dep.name]\<close>,
  so it may be a built-in; \<open>moduleDependency.match\<close> of a built-in would be a \<open>TypeError\<close>,
  but a name \<open>Object.prototype\<close> has is found in \<open>devDependencies\<close> before.
\<close>

datatype check_result = Result "string member" bool | JsFalse | Thrown js_error

definition validateRequirement ::
  "validator \<Rightarrow> string \<Rightarrow> module_info \<Rightarrow> check_result \<times> validator" where
  "validateRequirement v name m =
     (if member_of (dependencies (m_package m)) name = Missing
        then (Result Missing False, v)
      else if member_of (devDependencies (m_package m)) name \<noteq> Missing
        then (Result (member_of (dependencies (m_package m)) name) False, v)
      else if member_of (peerDependencies (m_package m)) name \<noteq> Missing
        then (Result (member_of (dependencies (m_package m)) name) False, v)
      else
        (case member_of (dependencies (m_package m)) name of
           Own moduleDependency \<Rightarrow>
             if regex_match DependencyVersionRegex moduleDependency
               then (JsFalse, v\<lparr>v_error := True\<rparr>)
             else (Result (Own moduleDependency) True, v)
         | _ \<Rightarrow> (Thrown TypeError, v)))"

definition validateModule ::
  "validator \<Rightarrow> string \<Rightarrow> module_info \<Rightarrow> check_result \<times> validator" where
  "validateModule v name m =
     (if member_of (peerDependencies (m_package m)) name = Missing
        then (Result Missing False, v)
      else if member_of (devDependencies (m_package m)) name \<noteq> Missing
        then (Result (member_of (peerDependencies (m_package m)) name) False, v)
      else
        (case member_of (peerDependencies (m_package m)) name of
           Own moduleDependency \<Rightarrow>
             if regex_match DependencyVersionRegex moduleDependency
               then (JsFalse, v\<lparr>v_error := True\<rparr>)
             else (Result (Own moduleDependency) True, v)
         | _ \<Rightarrow> (Thrown TypeError, v)))"

definition validateDependency ::
  "validator \<Rightarrow> string \<Rightarrow> module_info \<Rightarrow> check_result \<times> validator" where
  "validateDependency v name m =
     (if js_indexOf name ''@radon-extension/'' = 0 then validateModule v name m
      else validateRequirement v name m)"

definition isModulePermitted :: "module_info option \<Rightarrow> string \<Rightarrow> bool" where
  "isModulePermitted module name =
     (case module of None \<Rightarrow> True | Some m \<Rightarrow> name = ''@radon-extension/framework'')"

text \<open>
  \<open>let { dependency, valid } = this.validateDependency(dep, module)\<close>: destructuring the
  boolean \<open>false\<close> binds both names to \<open>undefined\<close>.
\<close>

fun destructure :: "check_result \<Rightarrow> string member \<times> bool" where
  "destructure (Result dependency valid) = (dependency, valid)"
| "destructure JsFalse = (Missing, False)"
| "destructure (Thrown err) = (Missing, False)"

text \<open>
  \<open>validateReason\<close> after \<open>parseDependency\<close> has answered a dependency. A dependency
  whose manifest has no \<open>name\<close> reaches \<open>dep.name.startsWith\<close>, a \<open>TypeError\<close>.
\<close>

definition validateParsed ::
  "validator \<Rightarrow> browser \<Rightarrow> environment \<Rightarrow> string option \<Rightarrow> dependency
     \<Rightarrow> js_error + bool \<times> validator" where
  "validateParsed v b e source dep =
     (if (case d_name dep of None \<Rightarrow> False | Some n \<Rightarrow> n \<in> set IgnoredPackages)
      then Inr (False, v)
      else
        (let module =
           (case source of
              None \<Rightarrow> None
            | Some src \<Rightarrow> find (\<lambda>m. js_startsWith src (m_path m)) (b_modules b))
         in
           if source \<noteq> None \<and> module = None then Inr (False, v\<lparr>v_error := True\<rparr>)
           else if (case module of None \<Rightarrow> False | Some m \<Rightarrow> d_name dep = Some (m_name m))
             then Inr (True, v)
           else
             (case d_name dep of
                None \<Rightarrow> Inl TypeError
              | Some name \<Rightarrow>
                  if js_startsWith name ''@radon-extension/'' \<and> \<not> isModulePermitted module name
                    then Inr (False, v\<lparr>v_error := True\<rparr>)
                  else
                    (case module of
                       None \<Rightarrow> Inr (False, v\<lparr>v_error := True\<rparr>)
                     | Some m \<Rightarrow>
                         if m_type m \<noteq> ''package'' then
                           (case validateDependency v name m of
                              (Thrown err, v') \<Rightarrow> Inl err
                            | (r, v') \<Rightarrow>
                              (case destructure r of (moduleDependency, valid) \<Rightarrow>
                                 if \<not> valid then Inr (False, v'\<lparr>v_error := True\<rparr>)
                                 else if moduleDependency \<noteq> Missing then
                                   (if settable (b_name b) (e_name e) (m_name m) name
                                    then Inr (True, v'\<lparr>v_dependencies :=
                                           set_used (v_dependencies v') (b_name b) (e_name e)
                                             (m_name m) name\<rparr>)
                                    else Inl NotModelled)
                                 else Inr (True, v')))
                         else Inr (False, v\<lparr>v_error := True\<rparr>)))))"

definition validateReason ::
  "node_env \<Rightarrow> validator \<Rightarrow> browser option \<Rightarrow> environment option \<Rightarrow> string option
     \<Rightarrow> string option \<Rightarrow> (js_error + bool \<times> validator) option" where
  "validateReason env v browser environment source request =
     (case browser of None \<Rightarrow> Some (Inr (False, v)) | Some b \<Rightarrow>
     (case environment of None \<Rightarrow> Some (Inr (False, v)) | Some e \<Rightarrow>
     (case request of None \<Rightarrow> Some (Inr (False, v)) | Some req \<Rightarrow>
        (case parseDependency env req of
           None \<Rightarrow> None
         | Some (Inl err) \<Rightarrow> Some (Inr (False, v))
         | Some (Inr None) \<Rightarrow> Some (Inr (False, v))
         | Some (Inr (Some dep)) \<Rightarrow> Some (validateParsed v b e source dep)))))"

subsection \<open>finish\<close>

text \<open>
  \<open>finish\<close> reads \<open>this.dependencies[browser.name][environment.name]\<close>, then under it the
  key \<open>null\<close> and every audited module's name; each of these reads may land on a built-in
  instead of an object of the index. \<open>_checkDependencies\<close> takes what was read, puts \<open>{}\<close>
  in the place of a falsy value, and asks \<open>matched[name]\<close> for every name of the manifest.
\<close>

datatype warning = NotRequired string string "string option"

datatype slot = SlotObject used_modules | SlotBuiltin "string list"

datatype matched = MatchedObject used_names | MatchedBuiltin "string list"

definition find_slot ::
  "builtins \<Rightarrow> used_index \<Rightarrow> string \<Rightarrow> string \<Rightarrow> js_error + slot option" where
  \<comment> \<open>\<open>this.dependencies[b][e]\<close> as the guard of \<open>finish\<close> reads it; \<open>Inr None\<close> when one of
      the two levels is \<open>null\<close> or \<open>undefined\<close>\<close>
  "find_slot rt idx b e =
     (case read_key idx b of
        Missing \<Rightarrow> Inr None
      | Own de \<Rightarrow>
          (case read_key de e of
             Missing \<Rightarrow> Inr None
           | Own dm \<Rightarrow> Inr (Some (SlotObject dm))
           | Inherited \<Rightarrow> Inr (Some (SlotBuiltin [e])))
      | Inherited \<Rightarrow>
          (case rt [b, e] of
             ReadNil \<Rightarrow> Inr None
           | ReadThrows \<Rightarrow> Inl TypeError
           | _ \<Rightarrow> Inr (Some (SlotBuiltin [b, e]))))"

definition find_matched :: "builtins \<Rightarrow> slot \<Rightarrow> string \<Rightarrow> js_error + matched" where
  \<comment> \<open>\<open>this.dependencies[b][e][k] || {}\<close>\<close>
  "find_matched rt sl k =
     (case sl of
        SlotObject dm \<Rightarrow>
          (case read_key dm k of
             Own dn \<Rightarrow> Inr (MatchedObject dn)
           | Inherited \<Rightarrow> Inr (MatchedBuiltin [k])
           | Missing \<Rightarrow> Inr (MatchedObject Map.empty))
      | SlotBuiltin p \<Rightarrow>
          (case rt (p @ [k]) of
             ReadTruthy \<Rightarrow> Inr (MatchedBuiltin (p @ [k]))
           | ReadThrows \<Rightarrow> Inl TypeError
           | _ \<Rightarrow> Inr (MatchedObject Map.empty)))"

definition marked :: "used_names \<Rightarrow> string \<Rightarrow> bool" where
  \<comment> \<open>is \<open>matched[name]\<close> truthy, \<open>matched\<close> an object of the index or \<open>{}\<close>\<close>
  "marked dn name =
     (case read_key dn name of
        Own mark \<Rightarrow> mark
      | Inherited \<Rightarrow> True
      | Missing \<Rightarrow> False)"

definition is_matched :: "builtins \<Rightarrow> matched \<Rightarrow> string \<Rightarrow> js_error + bool" where
  \<comment> \<open>is \<open>matched[name]\<close> truthy\<close>
  "is_matched rt mt name =
     (case mt of
        MatchedObject dn \<Rightarrow> Inr (marked dn name)
      | MatchedBuiltin q \<Rightarrow>
          (case rt (q @ [name]) of
             ReadTruthy \<Rightarrow> Inr True
           | ReadThrows \<Rightarrow> Inl TypeError
           | _ \<Rightarrow> Inr False))"

text \<open>
  The loop \<open>for(let name in current)\<close> visits the own keys. Each turn begins with
  \<open>current.hasOwnProperty(name)\<close>: when the manifest has an own member \<open>hasOwnProperty\<close>,
  a version string, calling it is a \<open>TypeError\<close>; otherwise the call answers \<open>true\<close> for
  the own key.
\<close>

fun check_names ::
  "builtins \<Rightarrow> string \<Rightarrow> (string \<times> string) list \<Rightarrow> matched \<Rightarrow> string option \<Rightarrow> string list
     \<Rightarrow> js_error + warning list" where
  "check_names rt prefix current mt moduleName [] = Inr []"
| "check_names rt prefix current mt moduleName (name # names) =
     (case member_of current ''hasOwnProperty'' of
        Own version \<Rightarrow> Inl TypeError
      | _ \<Rightarrow>
          if js_startsWith name ''@radon-extension/''
            then check_names rt prefix current mt moduleName names
          else
            (case is_matched rt mt name of
               Inl err \<Rightarrow> Inl err
             | Inr True \<Rightarrow> check_names rt prefix current mt moduleName names
             | Inr False \<Rightarrow>
                 (case check_names rt prefix current mt moduleName names of
                    Inl err \<Rightarrow> Inl err
                  | Inr ws \<Rightarrow> Inr (NotRequired prefix name moduleName # ws))))"

definition checkDependencies ::
  "builtins \<Rightarrow> string option \<Rightarrow> (string \<times> string) list option \<Rightarrow> matched \<Rightarrow> string option
     \<Rightarrow> js_error + warning list" where
  \<comment> \<open>\<open>_checkDependencies(prefix, current, matched, moduleName)\<close>\<close>
  "checkDependencies rt prefix current mt moduleName =
     (case prefix of None \<Rightarrow> Inr [] | Some p \<Rightarrow>
     (case current of None \<Rightarrow> Inr [] | Some cur \<Rightarrow>
        check_names rt p cur mt moduleName (map fst cur)))"

fun check_modules ::
  "builtins \<Rightarrow> slot \<Rightarrow> module_info list \<Rightarrow> js_error + warning list" where
  \<comment> \<open>the \<open>ForEach\<close> of \<open>finish\<close> over the modules that are neither packages nor tools\<close>
  "check_modules rt sl [] = Inr []"
| "check_modules rt sl (m # ms) =
     (case find_matched rt sl (m_name m) of
        Inl err \<Rightarrow> Inl err
      | Inr mt \<Rightarrow>
          (case checkDependencies rt (Some ''Dependency'')
                  (Some (dependencies (m_package m))) mt (Some (m_name m)) of
             Inl err \<Rightarrow> Inl err
           | Inr ws \<Rightarrow>
               (case check_modules rt sl ms of
                  Inl err \<Rightarrow> Inl err
                | Inr ws' \<Rightarrow> Inr (ws @ ws'))))"

definition finish ::
  "builtins \<Rightarrow> validator \<Rightarrow> browser \<Rightarrow> environment \<Rightarrow> js_error + warning list" where
  "finish rt v b e =
     (if v_error v then Inl BuildDidntPassValidation
      else
        (case find_slot rt (v_dependencies v) (b_name b) (e_name e) of
           Inl err \<Rightarrow> Inl err
         | Inr None \<Rightarrow> Inl NoDependenciesValidated
         | Inr (Some sl) \<Rightarrow>
             (case find_matched rt sl ''null'' of
                Inl err \<Rightarrow> Inl err
              | Inr mt \<Rightarrow>
                  (case checkDependencies rt (Some ''Dependency'')
                          (Some (dependencies (b_extension_package b))) mt None of
                     Inl err \<Rightarrow> Inl err
                   | Inr ws \<Rightarrow>
                       (case check_modules rt sl
                               (filter (\<lambda>m. m_type m \<notin> set [''package'', ''tool''])
                                  (b_modules b)) of
                          Inl err \<Rightarrow> Inl err
                        | Inr ws' \<Rightarrow> Inr (ws @ ws'))))))"

subsection \<open>Validation runs\<close>

text \<open>
  \<open>validate\<close> changes the validator only by marking \<open>checked\<close> and by calling
  \<open>validateReason\<close>; a run is therefore a sequence of \<open>validateReason\<close> calls on a new
  validator, with any arguments. A call that throws ends the run.
\<close>

type_synonym reason_call =
  "browser option \<times> environment option \<times> string option \<times> string option"

fun run :: "node_env \<Rightarrow> validator \<Rightarrow> reason_call list \<Rightarrow> (js_error + validator) option" where
  "run env v [] = Some (Inr v)"
| "run env v ((browser, environment, source, request) # calls) =
     (case validateReason env v browser environment source request of
        None \<Rightarrow> None
      | Some (Inl err) \<Rightarrow> Some (Inl err)
      | Some (Inr (r, v')) \<Rightarrow> run env v' calls)"

subsection \<open>Links\<close>

text \<open>
  \<open>Validator.links\<close> is \<open>browserName \<rightarrow> environmentName \<rightarrow> target \<rightarrow> source\<close>; the innermost
  object is iterated by \<open>resolveLink\<close> in insertion order, so it is an association list
  from target to source. Assigning an existing key keeps its place.
\<close>

type_synonym link_registry = "string \<rightharpoonup> (string \<rightharpoonup> (string \<times> string) list)"

fun assign :: "string \<Rightarrow> 'a \<Rightarrow> (string \<times> 'a) list \<Rightarrow> (string \<times> 'a) list" where
  "assign k x [] = [(k, x)]"
| "assign k x ((k', x') # kvs) = (if k = k' then (k, x) # kvs else (k', x') # assign k x kvs)"

definition link_entries :: "link_registry \<Rightarrow> string \<Rightarrow> string \<Rightarrow> (string \<times> string) list" where
  \<comment> \<open>\<open>Get(Validator.links, [b, e])\<close>; nothing to iterate when a level is missing\<close>
  "link_entries links b e =
     (case links b of None \<Rightarrow> [] | Some le \<Rightarrow> (case le e of None \<Rightarrow> [] | Some kvs \<Rightarrow> kvs))"

definition set_link :: "link_registry \<Rightarrow> string \<Rightarrow> string \<Rightarrow> string \<Rightarrow> string \<Rightarrow> link_registry" where
  \<comment> \<open>\<open>Set(Validator.links, [b, e, target], source)\<close>\<close>
  "set_link links b e target source =
     links(b \<mapsto> (or_empty (links b))(e \<mapsto> assign target source (link_entries links b e)))"

definition registerLink ::
  "node_env \<Rightarrow> link_registry \<Rightarrow> browser \<Rightarrow> environment \<Rightarrow> string \<Rightarrow> string
     \<Rightarrow> (js_error + link_registry) option" where
  "registerLink env links b e source target =
     (case parseDependency env source of
        None \<Rightarrow> None
      | Some (Inl err) \<Rightarrow> Some (Inr links)
      | Some (Inr None) \<Rightarrow> Some (Inl TypeError)
      | Some (Inr (Some dep)) \<Rightarrow>
         (case d_name dep of
            None \<Rightarrow> Some (Inl TypeError)
          | Some name \<Rightarrow>
              if js_indexOf name ''@radon-extension/'' = 0 then Some (Inr links)
              else
                (case map_of (link_entries links (b_name b) (e_name e)) target of
                   None \<Rightarrow> Some (Inr (set_link links (b_name b) (e_name e) target source))
                 | Some current \<Rightarrow>
                     if b_package b =
                          path_basename env
                            (js_substring current 0 (js_lastIndexOf current ''node_modules'' - 1))
                     then Some (Inr links)
                     else Some (Inr (set_link links (b_name b) (e_name e) target source)))))"

definition resolveLink ::
  "link_registry \<Rightarrow> browser \<Rightarrow> environment \<Rightarrow> string option \<Rightarrow> string option" where
  "resolveLink links b e path =
     (case path of
        None \<Rightarrow> None
      | Some p \<Rightarrow>
         (case find (\<lambda>(target, source). 0 \<le> js_indexOf p target)
                 (link_entries links (b_name b) (e_name e)) of
            None \<Rightarrow> Some p
          | Some (target, source) \<Rightarrow>
              Some (source @ js_substringFrom p (js_indexOf p target + int (length target)))))"

subsection \<open>What a run has done\<close>

text \<open>
  The two conditions of \<open>finish\<close>, said of the run rather than of the fields: the error
  flag was set by the validations of some initial part of the run, and an edge was
  recorded under a browser and an environment by some initial part of the run.
  \<open>wf_index\<close> is the shape lodash's \<open>Set\<close> maintains: an environment level that is there
  holds an edge.
\<close>

definition flag_set_during :: "node_env \<Rightarrow> reason_call list \<Rightarrow> bool" where
  "flag_set_during env calls =
     (\<exists>pre post v1. calls = pre @ post \<and> run env new_validator pre = Some (Inr v1) \<and> v_error v1)"

definition edge_recorded_during ::
  "node_env \<Rightarrow> reason_call list \<Rightarrow> string \<Rightarrow> string \<Rightarrow> bool" where
  "edge_recorded_during env calls bn en =
     (\<exists>pre post v1 m n. calls = pre @ post \<and> run env new_validator pre = Some (Inr v1)
        \<and> get_used (v_dependencies v1) bn en m n)"

definition wf_index :: "used_index \<Rightarrow> bool" where
  "wf_index d =
     (\<forall>b de e dm. d b = Some de \<longrightarrow> de e = Some dm \<longrightarrow> (\<exists>m n. get_used d b e m n))"

definition step_ok :: "validator \<Rightarrow> validator \<Rightarrow> bool" where
  "step_ok v v' = ((v_error v \<longrightarrow> v_error v')
     \<and> (v_dependencies v' = v_dependencies v
        \<or> (\<exists>b e m n. v_dependencies v' = set_used (v_dependencies v) b e m n)))"

text \<open>
  The browsers and environments on which \<open>finish\<close> reads objects of the index only: no
  name it looks up is a name \<open>Object.prototype\<close> has, and no manifest it audits has a
  member \<open>hasOwnProperty\<close> of its own.
\<close>

definition plain_names :: "browser \<Rightarrow> environment \<Rightarrow> bool" where
  "plain_names b e =
     (b_name b \<notin> set ObjectPrototype \<and> e_name e \<notin> set ObjectPrototype
      \<and> map_of (dependencies (b_extension_package b)) ''hasOwnProperty'' = None
      \<and> list_all (\<lambda>m. m_name m \<notin> set ObjectPrototype
                        \<and> map_of (dependencies (m_package m)) ''hasOwnProperty'' = None)
           (filter (\<lambda>m. m_type m \<notin> set [''package'', ''tool'']) (b_modules b)))"

section \<open>Semantic versions\<close>

text \<open>
  The \<open>semver\<close> package is not code of the repository. Its strict grammar is modelled
  here, so that tags can be evaluated:
  \<open>v? major . minor . patch ( - prerelease )? ( + build )?\<close>, where the three numbers are
  numeric identifiers (no leading zero) up to \<open>Number.MAX_SAFE_INTEGER\<close>, the
  pre-release and build parts are dot-separated identifiers of letters, digits and
  hyphens, an all-digit pre-release identifier has no leading zero, and the whole
  string is at most 256 characters. \<open>semver.valid\<close> answers \<open>null\<close>, and \<open>semver.major\<close>,
  \<open>minor\<close>, \<open>patch\<close> and \<open>prerelease\<close> throw a \<open>TypeError\<close>, on any other string.
\<close>

record semver =
  major :: int
  minor :: int
  patch :: int
  prerelease :: "string list"
  build :: "string list"

fun split_on :: "char \<Rightarrow> string \<Rightarrow> string list" where
  "split_on c [] = [[]]"
| "split_on c (x # xs) =
     (if x = c then [] # split_on c xs
      else (case split_on c xs of [] \<Rightarrow> [[x]] | w # ws \<Rightarrow> (x # w) # ws))"

definition digit_value :: "char \<Rightarrow> int" where
  "digit_value c = of_char c - 48"

definition number_of_digits :: "string \<Rightarrow> int" where
  "number_of_digits s = foldl (\<lambda>n c. 10 * n + digit_value c) 0 s"

definition is_numeric_identifier :: "string \<Rightarrow> bool" where
  "is_numeric_identifier s =
     (s \<noteq> [] \<and> list_all (in_class Digit) s \<and> (s = ''0'' \<or> \<not> js_startsWith s ''0''))"

definition is_identifier_char :: "char \<Rightarrow> bool" where
  "is_identifier_char c = (c \<noteq> CHR ''_'' \<and> in_class WordChar c \<or> c = CHR ''-'')"

definition is_prerelease_identifier :: "string \<Rightarrow> bool" where
  "is_prerelease_identifier s =
     (s \<noteq> [] \<and> list_all is_identifier_char s
      \<and> (list_all (in_class Digit) s \<longrightarrow> is_numeric_identifier s))"

definition is_build_identifier :: "string \<Rightarrow> bool" where
  "is_build_identifier s = (s \<noteq> [] \<and> list_all is_identifier_char s)"

definition MAX_SAFE_INTEGER :: int where
  "MAX_SAFE_INTEGER = 9007199254740991"

definition semver_parse :: "string \<Rightarrow> semver option" where
  "semver_parse version =
     (if 256 < length version then None
      else
        (let s = (if js_startsWith version ''v'' \<and> version \<noteq> [] then drop 1 version
                  else version);
             body = takeWhile (\<lambda>c. c \<noteq> CHR ''+'') s;
             meta = dropWhile (\<lambda>c. c \<noteq> CHR ''+'') s;
             core = takeWhile (\<lambda>c. c \<noteq> CHR ''-'') body;
             pre = dropWhile (\<lambda>c. c \<noteq> CHR ''-'') body
         in
           (case split_on CHR ''.'' core of
              [a, b, c] \<Rightarrow>
                if is_numeric_identifier a \<and> is_numeric_identifier b \<and> is_numeric_identifier c
                   \<and> number_of_digits a \<le> MAX_SAFE_INTEGER \<and> number_of_digits b \<le> MAX_SAFE_INTEGER
                   \<and> number_of_digits c \<le> MAX_SAFE_INTEGER
                   \<and> (pre = [] \<or> list_all is_prerelease_identifier (split_on CHR ''.'' (drop 1 pre)))
                   \<and> (meta = [] \<or> list_all is_build_identifier (split_on CHR ''.'' (drop 1 meta)))
                then Some \<lparr>major = number_of_digits a, minor = number_of_digits b,
                            patch = number_of_digits c,
                            prerelease = (if pre = [] then [] else split_on CHR ''.'' (drop 1 pre)),
                            build = (if meta = [] then [] else split_on CHR ''.'' (drop 1 meta))\<rparr>
                else None
            | _ \<Rightarrow> None)))"

text \<open>
  A number in a template string: its decimal digits. Version numbers are never
  negative.
\<close>

function decimal :: "int \<Rightarrow> string" where
  "decimal n =
     (if n < 10 then [char_of (48 + n)] else decimal (n div 10) @ [char_of (48 + n mod 10)])"
  by pat_completeness auto
termination
  by (relation "measure (\<lambda>n. nat n)") auto

section \<open>Release branches\<close>

definition series_branch :: "semver \<Rightarrow> string" where
  \<comment> \<open>\<open>`v${major}.${minor}`\<close>\<close>
  "series_branch v = ''v'' @ decimal (major v) @ ''.'' @ decimal (minor v)"

definition getTargetBranches :: "string \<Rightarrow> js_error + string list" where
  "getTargetBranches tag =
     (case semver_parse tag of
        None \<Rightarrow> Inl TypeError
      | Some v \<Rightarrow>
          Inr ((if patch v = 0 then [''develop''] else [])
               @ [series_branch v]
               @ (if prerelease v = [] then [''master''] else [])))"

definition getBranches :: "string \<Rightarrow> string list" where
  "getBranches ref =
     (if ref \<in> set [''master'', ''develop''] then [ref]
      else
        (case semver_parse ref of
           Some v \<Rightarrow> [ref, series_branch v]
         | None \<Rightarrow> [ref, ''develop'']))"

section \<open>Polling the continuous-integration service\<close>

text \<open>
  \<open>getTravisStatus\<close> and \<open>awaitTravisBuild\<close> are loops driven by timers: \<open>run\<close> counts an
  attempt, gives up when the count is over the budget, and otherwise sends one request
  whose answer either settles the promise or arms a timer for the next \<open>run\<close>. The
  service is a parameter: \<open>api k\<close> is its answer to the \<open>k\<close>-th request (\<open>Inl\<close> when the
  request fails); every request is answered. The result records how the promise settled, how many requests were
  sent and the delays (in milliseconds) of the timers that were armed; time itself is not modelled.
\<close>

record travis_status =
  ts_context :: string
  ts_created_at :: int
  ts_target_url :: string

record status_options =
  createdAfter :: "int option"
  sha :: "string option"
  delay :: int
  retryAttempts :: nat
  retryInterval :: int

record build_options =
  maximumAttempts :: nat
  maximumInterval :: int

datatype poll_error =
    UnableToRetrieveTravisStatus
  | RequestFailed string
  | BuildTimeout
  | IncorrectBuild

record 'a polled =
  p_result :: "poll_error + 'a"
  p_requests :: nat
  p_timers :: "int list"

datatype 'a reaction = Again int | Settle "poll_error + 'a"

definition settled :: "poll_error + 'a \<Rightarrow> 'a polled" where
  "settled r = \<lparr>p_result = r, p_requests = 1, p_timers = []\<rparr>"

definition gave_up :: "poll_error \<Rightarrow> 'a polled" where
  "gave_up e = \<lparr>p_result = Inl e, p_requests = 0, p_timers = []\<rparr>"

definition after_request :: "int \<Rightarrow> 'a polled \<Rightarrow> 'a polled" where
  \<comment> \<open>one request was sent and \<open>setTimeout(run, d)\<close> armed before the rest of the loop\<close>
  "after_request d r = r\<lparr>p_requests := Suc (p_requests r), p_timers := d # p_timers r\<rparr>"

definition onCombinedStatus ::
  "status_options \<Rightarrow> string + string \<times> travis_status list \<Rightarrow> travis_status reaction" where
  \<comment> \<open>the two callbacks of \<open>getCombinedStatusForRef(...).then\<close>\<close>
  "onCombinedStatus options response =
     (case response of
        Inl err \<Rightarrow> Settle (Inl (RequestFailed err))
      | Inr (status_sha, statuses) \<Rightarrow>
          if (case sha options of None \<Rightarrow> False | Some s \<Rightarrow> status_sha \<noteq> s)
            then Again (retryInterval options)
          else
            (case find (\<lambda>s. ts_context s = ''continuous-integration/travis-ci/push'') statuses of
               None \<Rightarrow> Again (retryInterval options)
             | Some travis \<Rightarrow>
                 if (case createdAfter options of None \<Rightarrow> False
                     | Some t \<Rightarrow> ts_created_at travis < t)
                   then Again (retryInterval options)
                 else Settle (Inr travis)))"

function getTravisStatus_run ::
  "status_options \<Rightarrow> (nat \<Rightarrow> string + string \<times> travis_status list) \<Rightarrow> nat
     \<Rightarrow> travis_status polled" where
  "getTravisStatus_run options api attempts =
     (if retryAttempts options < Suc attempts then gave_up UnableToRetrieveTravisStatus
      else
        (case onCombinedStatus options (api (Suc attempts)) of
           Settle r \<Rightarrow> settled r
         | Again d \<Rightarrow> after_request d (getTravisStatus_run options api (Suc attempts))))"
  by pat_completeness auto
termination
  by (relation "measure (\<lambda>(options, api, attempts). retryAttempts options - attempts)") auto

definition getTravisStatus ::
  "status_options \<Rightarrow> (nat \<Rightarrow> string + string \<times> travis_status list) \<Rightarrow> travis_status polled" where
  \<comment> \<open>\<open>attempts = 0\<close>, then \<open>setTimeout(run, options.delay)\<close>\<close>
  "getTravisStatus options api =
     (getTravisStatus_run options api 0)
       \<lparr>p_timers := delay options # p_timers (getTravisStatus_run options api 0)\<rparr>"

definition next_interval :: "build_options \<Rightarrow> nat \<Rightarrow> int \<Rightarrow> int" where
  \<comment> \<open>\<open>if(interval < options.maximumInterval) interval = (15 + Math.floor(attempts / 5)) * 1000\<close>\<close>
  "next_interval options attempts interval =
     (if interval < maximumInterval options then (15 + int (attempts div 5)) * 1000
      else interval)"

definition onBuild ::
  "build_options \<Rightarrow> string \<Rightarrow> int \<Rightarrow> string + string \<times> string \<Rightarrow> string reaction" where
  \<comment> \<open>the callback of \<open>travis.builds(id).get\<close>; the answer is an error or the build's state
      and its commit's branch\<close>
  "onBuild options ref interval response =
     (case response of
        Inl err \<Rightarrow> Again (maximumInterval options)
      | Inr (state, branch) \<Rightarrow>
          if branch \<noteq> ref then Settle (Inl IncorrectBuild)
          else if state \<in> set [''created'', ''started''] then Again interval
          else Settle (Inr state))"

function awaitTravisBuild_run ::
  "build_options \<Rightarrow> string \<Rightarrow> (nat \<Rightarrow> string + string \<times> string) \<Rightarrow> nat \<Rightarrow> int
     \<Rightarrow> string polled" where
  "awaitTravisBuild_run options ref api attempts interval =
     (if maximumAttempts options < Suc attempts then gave_up BuildTimeout
      else
        (case onBuild options ref (next_interval options (Suc attempts) interval)
                (api (Suc attempts)) of
           Settle r \<Rightarrow> settled r
         | Again d \<Rightarrow>
             after_request d
               (awaitTravisBuild_run options ref api (Suc attempts)
                  (next_interval options (Suc attempts) interval))))"
  by pat_completeness auto
termination
  by (relation "measure (\<lambda>(options, ref, api, attempts, interval).
                   maximumAttempts options - attempts)") auto

definition awaitTravisBuild ::
  "build_options \<Rightarrow> string \<Rightarrow> (nat \<Rightarrow> string + string \<times> string) \<Rightarrow> string polled" where
  \<comment> \<open>\<open>attempts = 0; interval = 15 * 1000; run()\<close>\<close>
  "awaitTravisBuild options ref api = awaitTravisBuild_run options ref api 0 15000"

definition status_retries :: "status_options \<Rightarrow> string + string \<times> travis_status list \<Rightarrow> bool" where
  "status_retries options response =
     (case onCombinedStatus options response of Again d \<Rightarrow> True | Settle r \<Rightarrow> False)"

definition build_retries :: "build_options \<Rightarrow> string \<Rightarrow> string + string \<times> string \<Rightarrow> bool" where
  "build_retries options ref response =
     (case onBuild options ref 0 response of Again d \<Rightarrow> True | Settle r \<Rightarrow> False)"

section \<open>Cloning module repositories\<close>

text \<open>
  The network is two collaborators, \<open>Github.exists\<close> and \<open>Git.clone\<close>. Their answers are
  parameters, and every call of one of them is recorded, in order. A clone that
  succeeds creates the directory it clones to. The filesystem is the \<open>existsSync\<close> of the
  Node environment, returned updated.
\<close>

datatype operation =
    GithubExists string string
  | GitClone string string string "string list"

record remote =
  github_exists :: "string \<Rightarrow> string \<Rightarrow> bool"
  git_clone_succeeds :: "string \<Rightarrow> string \<Rightarrow> bool"

record clone_result =
  c_branch :: string
  c_localPath :: string

type_synonym 'a effect = "(js_error + 'a) \<times> operation list \<times> node_env"

text \<open>
  Modelled from the spec: \<open>resolveOne\<close> of \<open>core/helpers/promise\<close> is not among the source
  files. The specification has \<open>clone\<close> try each candidate branch in order and clone the
  first one confirmed to exist remotely: the candidates are tried one after the other,
  the first whose promise resolves is the result, and the promise is rejected when
  none does.
\<close>

fun resolveOne :: "'a list \<Rightarrow> ('a \<Rightarrow> node_env \<Rightarrow> 'b effect) \<Rightarrow> node_env \<Rightarrow> 'b effect" where
  "resolveOne [] f env = (Inl NothingResolved, [], env)"
| "resolveOne (x # xs) f env =
     (case f x env of
        (Inr r, ops, env') \<Rightarrow> (Inr r, ops, env')
      | (Inl err, ops, env') \<Rightarrow>
          (case resolveOne xs f env' of (r, ops', env'') \<Rightarrow> (r, ops @ ops', env'')))"

definition repository_url :: "string \<Rightarrow> string" where
  "repository_url name = ''https://github.com/RadonApp/'' @ name @ ''.git''"

definition cloneBranch ::
  "remote \<Rightarrow> string \<Rightarrow> string \<Rightarrow> string \<Rightarrow> string \<Rightarrow> node_env \<Rightarrow> clone_result effect" where
  \<comment> \<open>the callback given to \<open>resolveOne\<close>: \<open>Github.exists(name, branch).then(...)\<close>\<close>
  "cloneBranch net modulesPath name localPath branch env =
     (if \<not> github_exists net name branch
        then (Inl (BranchNotFound name branch), [GithubExists name branch], env)
      else if \<not> git_clone_succeeds net (repository_url name) branch
        then (Inl (CloneFailed name),
              [GithubExists name branch,
               GitClone modulesPath (repository_url name) localPath [''-b'', branch]], env)
      else (Inr \<lparr>c_branch = branch, c_localPath = localPath\<rparr>,
            [GithubExists name branch,
             GitClone modulesPath (repository_url name) localPath [''-b'', branch]],
            env\<lparr>existsSync := (existsSync env)(localPath := True)\<rparr>))"

definition clone :: "node_env \<Rightarrow> remote \<Rightarrow> string \<Rightarrow> string \<Rightarrow> string \<Rightarrow> clone_result effect" where
  "clone env net target branch name =
     (if js_indexOf name ''radon-extension-'' \<noteq> 0
        then (Inl (InvalidRepositoryName name), [], env)
      else if existsSync env (path_join env (path_join env target ''.modules'') name)
        then (Inr \<lparr>c_branch = branch,
                   c_localPath = path_join env (path_join env target ''.modules'') name\<rparr>,
              [], env)
      else resolveOne (getBranches branch)
             (cloneBranch net (path_join env target ''.modules'') name
                (path_join env (path_join env target ''.modules'') name))
             env)"

section \<open>Updating the versions of a manifest\<close>

text \<open>
  A manifest is the parsed \<open>package.json\<close>: its two dependency objects, each possibly
  absent, and its other members. \<open>updateVersions\<close> keeps a version when
  \<open>dependencies[name]\<close> is neither \<open>null\<close> nor \<open>undefined\<close>, a read that also finds the
  members of \<open>Object.prototype\<close>. A value of the \<open>versions\<close> object is a plain object
  \<open>{version, from}\<close> or anything else (a string, or \<open>null\<close>).
\<close>

record manifest =
  mf_dependencies :: "(string \<times> string) list option"
  mf_peerDependencies :: "(string \<times> string) list option"
  mf_other :: "(string \<times> string) list"

datatype version_spec =
    VersionValue "string option"
  | VersionObject "string option" "string option"

fun parsePackageDependency :: "version_spec \<Rightarrow> string option \<times> string option" where
  \<comment> \<open>the pair \<open>(from, version)\<close> of the object it returns\<close>
  "parsePackageDependency (VersionValue dep) = (None, dep)"
| "parsePackageDependency (VersionObject version from) = (from, version)"

fun format_versions ::
  "(string \<Rightarrow> string \<Rightarrow> string \<Rightarrow> string) \<Rightarrow> string \<Rightarrow> (string \<times> version_spec) list
     \<Rightarrow> js_error + (string \<times> string) list" where
  \<comment> \<open>the \<open>MapValues\<close> callback of \<open>updateVersions\<close>, which throws on a missing version\<close>
  "format_versions formatVersion group_name [] = Inr []"
| "format_versions formatVersion group_name ((name, dep) # rest) =
     (case snd (parsePackageDependency dep) of
        None \<Rightarrow> Inl (InvalidVersion name)
      | Some version \<Rightarrow>
          (case format_versions formatVersion group_name rest of
             Inl err \<Rightarrow> Inl err
           | Inr updated \<Rightarrow> Inr ((name, formatVersion version name group_name) # updated)))"

definition spread :: "(string \<times> string) list \<Rightarrow> (string \<times> string) list \<Rightarrow> (string \<times> string) list" where
  \<comment> \<open>\<open>{...a, ...b}\<close>\<close>
  "spread a b = foldl (\<lambda>acc (k, x). assign k x acc) a b"

definition updateVersions ::
  "(string \<Rightarrow> string \<Rightarrow> string \<Rightarrow> string) \<Rightarrow> (string \<times> version_spec) list
     \<Rightarrow> (string \<times> string) list option \<Rightarrow> string \<Rightarrow> js_error + (string \<times> string) list option" where
  "updateVersions formatVersion versions declared group_name =
     (case declared of
        None \<Rightarrow> Inr None
      | Some deps \<Rightarrow>
          (case format_versions formatVersion group_name
                  (filter (\<lambda>(name, dep). member_of deps name \<noteq> Missing) versions) of
             Inl err \<Rightarrow> Inl err
           | Inr updated \<Rightarrow> Inr (Some (spread deps updated))))"

definition nonempty_object :: "(string \<times> string) list option \<Rightarrow> bool" where
  \<comment> \<open>\<open>!IsNil(o) && Object.keys(o).length > 0\<close>\<close>
  "nonempty_object obj = (case obj of None \<Rightarrow> False | Some kvs \<Rightarrow> 0 < length kvs)"

definition updatePackage ::
  "(string \<Rightarrow> string \<Rightarrow> string \<Rightarrow> string) \<Rightarrow> manifest \<Rightarrow> (string \<times> version_spec) list option
     \<Rightarrow> js_error + manifest" where
  "updatePackage formatVersion pkg versions =
     (case (if nonempty_object (mf_dependencies pkg)
            then (case updateVersions formatVersion (case versions of None \<Rightarrow> [] | Some vs \<Rightarrow> vs)
                         (mf_dependencies pkg) ''dependencies'' of
                    Inl err \<Rightarrow> Inl err
                  | Inr deps \<Rightarrow> Inr (pkg\<lparr>mf_dependencies := deps\<rparr>))
            else Inr pkg) of
        Inl err \<Rightarrow> Inl err
      | Inr pkg1 \<Rightarrow>
          if nonempty_object (mf_peerDependencies pkg1)
          then (case updateVersions formatVersion (case versions of None \<Rightarrow> [] | Some vs \<Rightarrow> vs)
                       (mf_peerDependencies pkg1) ''peerDependencies'' of
                  Inl err \<Rightarrow> Inl err
                | Inr deps \<Rightarrow> Inr (pkg1\<lparr>mf_peerDependencies := deps\<rparr>))
          else Inr pkg1)"

text \<open>
  lodash's \<open>IsEqual\<close> compares objects member by member, whatever the order of the keys.
\<close>

definition object_isEqual :: "(string \<times> string) list \<Rightarrow> (string \<times> string) list \<Rightarrow> bool" where
  "object_isEqual a b =
     (set (map fst a) = set (map fst b) \<and> (\<forall>k \<in> set (map fst a). map_of a k = map_of b k))"

definition optional_isEqual ::
  "(string \<times> string) list option \<Rightarrow> (string \<times> string) list option \<Rightarrow> bool" where
  "optional_isEqual a b =
     (case (a, b) of
        (None, None) \<Rightarrow> True
      | (Some x, Some y) \<Rightarrow> object_isEqual x y
      | _ \<Rightarrow> False)"

definition manifest_isEqual :: "manifest \<Rightarrow> manifest \<Rightarrow> bool" where
  "manifest_isEqual a b =
     (optional_isEqual (mf_dependencies a) (mf_dependencies b)
      \<and> optional_isEqual (mf_peerDependencies a) (mf_peerDependencies b)
      \<and> object_isEqual (mf_other a) (mf_other b))"

text \<open>
  The files \<open>writePackage\<close> works on: what \<open>statSync(path).isDirectory()\<close> answers (\<open>None\<close>
  when it throws), the contents of the files, and \<open>JSON.parse\<close> and \<open>writeJson\<close>'s
  serialisation (given the line ending) as parameters. The result is what the promise
  settles to, and the contents of the files afterwards, a write being taken to succeed.
\<close>

record package_files =
  pf_isDirectory :: "string \<Rightarrow> bool option"
  pf_contents :: "string \<rightharpoonup> string"
  pf_join :: "string \<Rightarrow> string \<Rightarrow> string"
  pf_parse :: "string \<Rightarrow> manifest option"
  pf_serialise :: "manifest \<Rightarrow> string \<Rightarrow> string"

definition writePackage ::
  "(string \<Rightarrow> string \<Rightarrow> string \<Rightarrow> string) \<Rightarrow> package_files \<Rightarrow> string
     \<Rightarrow> (string \<times> version_spec) list option \<Rightarrow> (js_error + bool) \<times> (string \<rightharpoonup> string)" where
  "writePackage formatVersion files path versions =
     (case pf_isDirectory files path of
        None \<Rightarrow> (Inl FilesystemError, pf_contents files)
      | Some isDirectory \<Rightarrow>
          (case pf_contents files
                  (if isDirectory then pf_join files path ''package.json'' else path) of
             None \<Rightarrow> (Inl FilesystemError, pf_contents files)
           | Some data \<Rightarrow>
               (case pf_parse files data of
                  None \<Rightarrow> (Inl SyntaxError, pf_contents files)
                | Some previous \<Rightarrow>
                    (case updatePackage formatVersion previous versions of
                       Inl err \<Rightarrow> (Inl err, pf_contents files)
                     | Inr current \<Rightarrow>
                         if manifest_isEqual previous current
                           then (Inr False, pf_contents files)
                         else (Inr True,
                               (pf_contents files)
                                 ((if isDirectory then pf_join files path ''package.json''
                                   else path) \<mapsto>
                                  pf_serialise files current
                                    (if 0 \<le> js_indexOf data [CHR 0x0D, CHR 0x0A]
                                     then [CHR 0x0D, CHR 0x0A] else [CHR 0x0A])))))))"

section \<open>Resolving modules\<close>

text \<open>
  A promise chain is a computation that stops at the first rejection: a \<open>then\<close> with one
  callback is skipped by a rejected promise. \<open>resolve\<close> returns how its promise settles
  and what was logged on the way. Its collaborators are parameters: \<open>Path.resolve\<close>,
  \<open>readPackageDetails\<close> (of which the name and the dependency objects are kept),
  \<open>Git.status\<close>, and the stages after the repository and CI stages (contributors,
  module manifest, version, manifest overlay), which read files and call \<open>Version\<close>.
  The exception \<open>getModulePath\<close> throws is a rejection here. \<open>Git.status\<close> resolves with
  an empty object, no commit and nothing dirty, for a directory that holds no repository.
\<close>

record repository_status =
  r_ahead :: int
  r_dirty :: bool
  r_branch :: "string option"
  r_commit :: "string option"
  r_tag :: "string option"
  r_latestTag :: "string option"

record travis_info =
  tr_branch :: "string option"
  tr_commit :: "string option"
  tr_tag :: "string option"

record build_record =
  br_repository :: "repository_status option"

record extension_info =
  x_path :: string
  x_repository :: repository_status
  x_build :: "string \<rightharpoonup> build_record"
  x_travis :: travis_info
  x_modules :: "(string \<times> string list) list"

record package_info =
  pk_name :: string
  pk_details :: package_details

record module_type =
  t_name :: string
  t_directory :: "string option"

definition ModuleType :: "string \<rightharpoonup> module_type" where
  "ModuleType = map_of [
     (''core'', \<lparr>t_name = ''core'', t_directory = None\<rparr>),
     (''tool'', \<lparr>t_name = ''tool'', t_directory = Some ''Tools/''\<rparr>),
     (''packages'', \<lparr>t_name = ''package'', t_directory = Some ''Packages/''\<rparr>),
     (''destinations'', \<lparr>t_name = ''destination'', t_directory = Some ''Destinations/''\<rparr>),
     (''sources'', \<lparr>t_name = ''source'', t_directory = Some ''Sources/''\<rparr>)]"

record resolved_module =
  rm_key :: string
  rm_type :: string
  rm_path :: string
  rm_name :: string
  rm_package :: package_info
  rm_repository :: repository_status
  rm_branch :: "string option"
  rm_commit :: "string option"
  rm_tag :: "string option"
  rm_latestTag :: "string option"
  rm_travis :: "travis_info option"

record resolver =
  rs_resolve :: "string list \<Rightarrow> string"
  rs_readPackageDetails :: "string \<Rightarrow> js_error + package_info"
  rs_git_status :: "string \<Rightarrow> js_error + repository_status"
  rs_later_stages :: "string \<Rightarrow> resolved_module \<Rightarrow> js_error + resolved_module"

datatype log_level = LogDebug | LogWarn | LogError

datatype log_message =
    RepositoryIs string repository_status
  | NoRepositoryStatusInBuildManifest string
  | InvalidRepositoryStatus string

type_synonym log = "(log_level \<times> log_message) list"

definition getModulePath ::
  "node_env \<Rightarrow> resolver \<Rightarrow> string \<Rightarrow> string \<Rightarrow> module_type \<Rightarrow> js_error + string" where
  "getModulePath env rs basePath name moduleType =
     (if existsSync env
           (rs_resolve rs [basePath,
              (case t_directory moduleType of None \<Rightarrow> [] | Some d \<Rightarrow> d) @ name])
        then Inr (rs_resolve rs [basePath,
                    (case t_directory moduleType of None \<Rightarrow> [] | Some d \<Rightarrow> d) @ name])
      else if t_name moduleType = ''package'' \<and> existsSync env basePath
        then Inr (rs_resolve rs [basePath])
      else if existsSync env (rs_resolve rs [basePath, ''node_modules'', name])
        then Inr (rs_resolve rs [basePath, ''node_modules'', name])
      else Inl (UnableToFindModule name))"

definition unknown_status :: repository_status where
  \<comment> \<open>what the \<open>catch\<close> after \<open>Git.status\<close> answers\<close>
  "unknown_status = \<lparr>r_ahead = 0, r_dirty = False, r_branch = None, r_commit = None,
     r_tag = None, r_latestTag = None\<rparr>"

definition findRepository ::
  "node_env \<Rightarrow> resolver \<Rightarrow> extension_info \<Rightarrow> string \<Rightarrow> string \<Rightarrow> repository_status" where
  \<comment> \<open>\<open>// Find repository\<close> and \<open>// Resolve repository status\<close>\<close>
  "findRepository env rs extension moduleName modulePath =
     (case rs_git_status rs
             (if existsSync env
                   (path_join env (path_join env (x_path extension) ''.modules'') moduleName)
              then path_join env (path_join env (x_path extension) ''.modules'') moduleName
              else modulePath) of
        Inl err \<Rightarrow> unknown_status
      | Inr status \<Rightarrow> status)"

definition resolveRepository ::
  "node_env \<Rightarrow> resolver \<Rightarrow> extension_info \<Rightarrow> string \<Rightarrow> string \<Rightarrow> string
     \<Rightarrow> repository_status \<times> log" where
  \<comment> \<open>the first callback of the \<open>// Resolve repository status\<close> stage; it never rejects\<close>
  "resolveRepository env rs extension moduleType moduleName modulePath =
     (if moduleType = ''package'' then (x_repository extension, [])
      else
        (case x_build extension moduleName of
           None \<Rightarrow> (findRepository env rs extension moduleName modulePath, [])
         | Some entry \<Rightarrow>
             (case br_repository entry of
                Some status \<Rightarrow> (status, [])
              | None \<Rightarrow>
                  (findRepository env rs extension moduleName modulePath,
                   [(LogWarn, NoRepositoryStatusInBuildManifest moduleName)]))))"

definition resolve ::
  "node_env \<Rightarrow> resolver \<Rightarrow> string \<Rightarrow> extension_info \<Rightarrow> string \<Rightarrow> string \<Rightarrow> string
     \<Rightarrow> (js_error + resolved_module) \<times> log" where
  "resolve env rs browserName extension path type_key name =
     (case ModuleType type_key of
        None \<Rightarrow> (Inl (UnknownModuleType type_key), [])
      | Some moduleType \<Rightarrow>
          if length (js_substringFrom name (js_lastIndexOf name ''-'' + 1)) < 1
            then (Inl (InvalidModuleName name), [])
          else
            (case getModulePath env rs path name moduleType of
               Inl err \<Rightarrow> (Inl err, [])
             | Inr modulePath \<Rightarrow>
                 (case rs_readPackageDetails rs modulePath of
                    Inl err \<Rightarrow> (Inl err, [])
                  | Inr pkg \<Rightarrow>
                      (case resolveRepository env rs extension (t_name moduleType)
                              (pk_name pkg) modulePath of
                         (repository, warnings) \<Rightarrow>
                           if r_commit repository = None \<and> \<not> r_dirty repository
                             then (Inl RejectedWithoutReason,
                                   warnings @ [(LogDebug, RepositoryIs name repository),
                                               (LogError, InvalidRepositoryStatus (pk_name pkg))])
                           else
                             (rs_later_stages rs browserName
                                \<lparr>rm_key = js_substringFrom name (js_lastIndexOf name ''-'' + 1),
                                 rm_type = t_name moduleType,
                                 rm_path = modulePath,
                                 rm_name = pk_name pkg,
                                 rm_package = pkg,
                                 rm_repository = repository,
                                 rm_branch = (if t_name moduleType = ''package''
                                              then tr_branch (x_travis extension)
                                              else r_branch repository),
                                 rm_commit = (if t_name moduleType = ''package''
                                              then tr_commit (x_travis extension)
                                              else r_commit repository),
                                 rm_tag = (if t_name moduleType = ''package''
                                           then tr_tag (x_travis extension)
                                           else r_tag repository),
                                 rm_latestTag = r_latestTag repository,
                                 rm_travis = (if t_name moduleType = ''package''
                                              then Some (x_travis extension) else None)\<rparr>,
                              warnings @ [(LogDebug, RepositoryIs name repository)])))))"

text \<open>
  Modelled from the spec: \<open>runSequential\<close> of \<open>core/helpers/promise\<close> is not among the
  source files. The specification has the modules resolved one after the other, one
  failure aborting the whole graph build: the items are processed in order, the first
  rejection is the rejection of the whole, and the items after it are not processed.
\<close>

fun runSequential ::
  "'a list \<Rightarrow> ('a \<Rightarrow> (js_error + 'b) \<times> log) \<Rightarrow> (js_error + 'b list) \<times> log" where
  "runSequential [] f = (Inr [], [])"
| "runSequential (x # xs) f =
     (case f x of
        (Inl err, logged) \<Rightarrow> (Inl err, logged)
      | (Inr r, logged) \<Rightarrow>
          (case runSequential xs f of
             (Inl err, logged') \<Rightarrow> (Inl err, logged @ logged')
           | (Inr rest, logged') \<Rightarrow> (Inr (r # rest), logged @ logged')))"

definition module_requests :: "extension_info \<Rightarrow> (string \<times> string) list" where
  \<comment> \<open>the \<open>Reduce\<close> of \<open>resolveMany\<close>: the build tool, then every name of every type\<close>
  "module_requests extension =
     (''tool'', ''neon-extension-build'')
       # concat (map (\<lambda>(type_key, names). map (\<lambda>name. (type_key, name)) names)
                   (x_modules extension))"

definition KeyBy_name :: "resolved_module list \<Rightarrow> (string \<times> resolved_module) list" where
  "KeyBy_name modules = foldl (\<lambda>acc m. assign (rm_name m) m acc) [] modules"

definition resolveMany ::
  "node_env \<Rightarrow> resolver \<Rightarrow> string \<Rightarrow> string \<Rightarrow> extension_info
     \<Rightarrow> (js_error + (string \<times> resolved_module) list) \<times> log" where
  "resolveMany env rs path browserName extension =
     (case runSequential (module_requests extension)
             (\<lambda>(type_key, name). resolve env rs browserName extension path type_key name) of
        (Inl err, logged) \<Rightarrow> (Inl err, logged)
      | (Inr modules, logged) \<Rightarrow> (Inr (KeyBy_name modules), logged))"

text \<open>A manifest declares a name when one of its two dependency objects has it as a key.\<close>

definition declares :: "manifest \<Rightarrow> string \<Rightarrow> bool" where
  "declares pkg name =
     ((case mf_dependencies pkg of None \<Rightarrow> False | Some deps \<Rightarrow> name \<in> fst ` set deps)
      \<or> (case mf_peerDependencies pkg of None \<Rightarrow> False | Some deps \<Rightarrow> name \<in> fst ` set deps))"

section \<open>Concrete inputs\<close>

text \<open>A Node environment in which no path exists, for evaluating the definitions.\<close>

definition no_files :: node_env where
  "no_files = \<lparr>existsSync = (\<lambda>_. False), statSync_isFile = (\<lambda>_. None),
     readJsonSync_name = (\<lambda>_. None), path_dirname = (\<lambda>p. p),
     path_join = (\<lambda>a b. a @ ''/'' @ b), path_resolve_parent = (\<lambda>p. p),
     path_basename = (\<lambda>p. p)\<rparr>"

text \<open>
  A browser with one module, \<open>@radon-extension/core\<close>, whose manifest declares a range,
  a pinned version and a dependency nothing requires.
\<close>

definition core_module :: module_info where
  "core_module = \<lparr>m_name = ''@radon-extension/core'', m_type = ''core'', m_path = ''/ext/core'',
     m_package = \<lparr>
       dependencies = [(''lodash'', ''^4.17.5''), (''pinned'', ''1.2.3''), (''spare'', ''^1.0.0'')],
       devDependencies = [],
       peerDependencies = [(''@radon-extension/framework'', ''^1.0.0'')]\<rparr>\<rparr>"

definition chrome :: browser where
  "chrome = \<lparr>b_name = ''chrome'', b_package = ''radon-extension-chrome'',
     b_modules = [core_module],
     b_extension_package = \<lparr>
       dependencies = [(''@radon-extension/core'', ''^1.0.0''), (''idle'', ''^2.0.0'')],
       devDependencies = [], peerDependencies = []\<rparr>\<rparr>"

definition production :: environment where
  "production = \<lparr>e_name = ''production''\<rparr>"

definition lodash_call :: reason_call where
  "lodash_call =
     (Some chrome, Some production, Some ''/ext/core/src/index.js'', Some ''lodash/get'')"

text \<open>
  The same browser with manifests that declare a name \<open>Object.prototype\<close> has: the
  extension's manifest a dependency \<open>hasOwnProperty\<close>; or the module's manifest a
  dependency \<open>constructor\<close> that nothing requires.
\<close>

definition shadowing_chrome :: browser where
  "shadowing_chrome = chrome\<lparr>b_extension_package := \<lparr>
     dependencies = [(''hasOwnProperty'', ''^1.0.0'')],
     devDependencies = [], peerDependencies = []\<rparr>\<rparr>"

definition shadowing_call :: reason_call where
  "shadowing_call =
     (Some shadowing_chrome, Some production, Some ''/ext/core/src/index.js'',
      Some ''lodash/get'')"

definition inheriting_module :: module_info where
  "inheriting_module = core_module\<lparr>m_package := \<lparr>
     dependencies = [(''lodash'', ''^4.17.5''), (''constructor'', ''^1.0.0''),
                     (''spare'', ''^1.0.0'')],
     devDependencies = [], peerDependencies = []\<rparr>\<rparr>"

definition inheriting_chrome :: browser where
  "inheriting_chrome = chrome\<lparr>b_modules := [inheriting_module]\<rparr>"

definition inheriting_call :: reason_call where
  "inheriting_call =
     (Some inheriting_chrome, Some production, Some ''/ext/core/src/index.js'',
      Some ''lodash/get'')"




text \<open>
  A Node environment in which \<open>/work/node_modules/x\<close> is a directory holding the manifest
  of a package named \<open>x\<close>.
\<close>

definition parent_dir :: "string \<Rightarrow> string" where
  "parent_dir p =
     (if rev (drop 1 (dropWhile (\<lambda>c. c \<noteq> CHR ''/'') (rev p))) = [] then ''/''
      else rev (drop 1 (dropWhile (\<lambda>c. c \<noteq> CHR ''/'') (rev p))))"

definition linked_files :: node_env where
  "linked_files = \<lparr>
     existsSync =
       (\<lambda>p. p \<in> set [''/work/node_modules/x'', ''/work/node_modules/x/package.json'']),
     statSync_isFile = (\<lambda>p. Some (p = ''/work/node_modules/x/package.json'')),
     readJsonSync_name =
       (\<lambda>p. if p = ''/work/node_modules/x/package.json'' then Some (Some ''x'') else None),
     path_dirname = parent_dir,
     path_join = (\<lambda>a b. a @ ''/'' @ b),
     path_resolve_parent = parent_dir,
     path_basename = (\<lambda>p. rev (takeWhile (\<lambda>c. c \<noteq> CHR ''/'') (rev p)))\<rparr>"

text \<open>The option values the source fills in when the caller gives none.\<close>

definition default_status_options :: status_options where
  "default_status_options = \<lparr>createdAfter = None, sha = None, delay = 30 * 1000,
     retryAttempts = 20, retryInterval = 15 * 1000\<rparr>"

definition default_build_options :: build_options where
  "default_build_options = \<lparr>maximumAttempts = 120, maximumInterval = 45 * 1000\<rparr>"

text \<open>A remote on which only the \<open>develop\<close> branch exists, and the filesystem after a clone.\<close>

definition github :: remote where
  "github = \<lparr>github_exists = (\<lambda>name branch. branch = ''develop''),
              git_clone_succeeds = (\<lambda>url branch. True)\<rparr>"

definition cloned_files :: node_env where
  "cloned_files =
     no_files\<lparr>existsSync := (existsSync no_files)(''/work/.modules/radon-extension-core'' := True)\<rparr>"

text \<open>A manifest, and a directory \<open>/work\<close> whose \<open>package.json\<close> parses to it.\<close>

definition chrome_manifest :: manifest where
  "chrome_manifest = \<lparr>
     mf_dependencies = Some [(''lodash'', ''^4.17.5'')],
     mf_peerDependencies = Some [(''neon-extension-core'', ''1.9.0''),
                                 (''neon-extension-framework'', ''1.9.0'')],
     mf_other = [(''name'', ''neon-extension-chrome'')]\<rparr>"

definition work_files :: package_files where
  "work_files = \<lparr>
     pf_isDirectory = (\<lambda>p. if p = ''/work'' then Some True
                            else if p = ''/work/package.json'' then Some False else None),
     pf_contents = [''/work/package.json'' \<mapsto> ''{ the manifest of neon-extension-chrome }''],
     pf_join = (\<lambda>a b. a @ ''/'' @ b),
     pf_parse = (\<lambda>data. if data = ''{ the manifest of neon-extension-chrome }''
                          then Some chrome_manifest else None),
     pf_serialise = (\<lambda>pkg eol. ''{ a rewritten manifest }'' @ eol)\<rparr>"

definition keep_version :: "string \<Rightarrow> string \<Rightarrow> string \<Rightarrow> string" where
  \<comment> \<open>the default \<open>formatVersion\<close>\<close>
  "keep_version version name group_name = version"

text \<open>
  An extension with a destination and a source module. The build tool's directory holds
  a repository with a commit; the others hold none, for which \<open>Git.status\<close> resolves with
  an empty object.
\<close>

definition join_segments :: "string list \<Rightarrow> string" where
  "join_segments segments =
     (case segments of [] \<Rightarrow> [] | s # rest \<Rightarrow> foldl (\<lambda>a b. a @ ''/'' @ b) s rest)"

definition committed_status :: repository_status where
  "committed_status = \<lparr>r_ahead = 0, r_dirty = False, r_branch = Some ''develop'',
     r_commit = Some ''0a1b2c'', r_tag = None, r_latestTag = Some ''v1.9.0''\<rparr>"

definition empty_status :: repository_status where
  "empty_status = \<lparr>r_ahead = 0, r_dirty = False, r_branch = None, r_commit = None,
     r_tag = None, r_latestTag = None\<rparr>"

definition module_files :: node_env where
  "module_files = \<lparr>
     existsSync = (\<lambda>p. p \<in> set [''/ext'', ''/ext/Tools/neon-extension-build'',
                                  ''/ext/Destinations/neon-extension-destination-lastfm'',
                                  ''/ext/Sources/neon-extension-source-netflix'']),
     statSync_isFile = (\<lambda>p. Some False),
     readJsonSync_name = (\<lambda>p. None),
     path_dirname = parent_dir,
     path_join = (\<lambda>a b. a @ ''/'' @ b),
     path_resolve_parent = parent_dir,
     path_basename = (\<lambda>p. rev (takeWhile (\<lambda>c. c \<noteq> CHR ''/'') (rev p)))\<rparr>"

definition local_resolver :: resolver where
  "local_resolver = \<lparr>
     rs_resolve = join_segments,
     rs_readPackageDetails =
       (\<lambda>p. Inr \<lparr>pk_name = rev (takeWhile (\<lambda>c. c \<noteq> CHR ''/'') (rev p)),
                   pk_details = \<lparr>dependencies = [], devDependencies = [],
                                  peerDependencies = []\<rparr>\<rparr>),
     rs_git_status =
       (\<lambda>p. if p = ''/ext/Tools/neon-extension-build'' then Inr committed_status
             else Inr empty_status),
     rs_later_stages = (\<lambda>browserName m. Inr m)\<rparr>"

definition radon_extension :: extension_info where
  "radon_extension = \<lparr>
     x_path = ''/ext'',
     x_repository = committed_status,
     x_build = Map.empty,
     x_travis = \<lparr>tr_branch = None, tr_commit = None, tr_tag = None\<rparr>,
     x_modules = [(''destinations'', [''neon-extension-destination-lastfm'']),
                  (''sources'', [''neon-extension-source-netflix''])]\<rparr>"

section \<open>Properties of the string functions\<close>

lemma js_indexOf_char:
  "js_indexOf s [c] = (if c \<in> set s then int (length (takeWhile (\<lambda>x. x \<noteq> c) s)) else - 1)"
  by (induction s) (auto simp: js_startsWith_def Let_def)

lemma take_length_takeWhile: "take (length (takeWhile P s)) s = takeWhile P s"
  by (induction s) auto

lemma takeWhile_no_occurrence: "c \<notin> set s \<Longrightarrow> takeWhile (\<lambda>x. x \<noteq> c) s = s"
  by (induction s) auto

lemma before_first_char:
  "js_substring s 0 (js_indexOf s [c]) = (if c \<in> set s then takeWhile (\<lambda>x. x \<noteq> c) s else [])"
proof (cases "c \<in> set s")
  case True
  have "length (takeWhile (\<lambda>x. x \<noteq> c) s) \<le> length s"
    by (rule length_takeWhile_le)
  then have "clampIndex s (int (length (takeWhile (\<lambda>x. x \<noteq> c) s)))
               = length (takeWhile (\<lambda>x. x \<noteq> c) s)"
    by (simp add: clampIndex_def)
  then show ?thesis
    using True
    by (simp add: js_substring_def js_indexOf_char Let_def take_length_takeWhile clampIndex_def)
next
  case False
  then show ?thesis
    by (simp add: js_substring_def clampIndex_def js_indexOf_char Let_def)
qed

section \<open>parseDependency on a path that does not exist\<close>

text \<open>
  C10. When the request does not exist on the filesystem, \<open>parseDependency\<close> returns
  (it neither throws nor enters the directory walk) the dependency \<open>{name, path: null}\<close>,
  where \<open>name\<close> is the part of the request before its first \<open>/\<close> when that part is not
  empty, and the whole request otherwise; so a request without any \<open>/\<close>, or one that
  starts with \<open>/\<close>, is its own name.
\<close>

theorem parseDependency_missing_path:
  assumes "\<not> existsSync env request"
  shows "parseDependency env request =
           Some (Inr (Some \<lparr>d_name = Some (if takeWhile (\<lambda>c. c \<noteq> CHR ''/'') request = []
                                            then request
                                            else takeWhile (\<lambda>c. c \<noteq> CHR ''/'') request),
                            d_path = None\<rparr>))
       \<and> (CHR ''/'' \<notin> set request \<or> js_startsWith request ''/'' \<longrightarrow>
           parseDependency env request =
             Some (Inr (Some \<lparr>d_name = Some request, d_path = None\<rparr>)))"
proof -
  let ?t = "takeWhile (\<lambda>c. c \<noteq> CHR ''/'') request"
  have sub: "js_substring request 0 (js_indexOf request ''/'')
               = (if CHR ''/'' \<in> set request then ?t else [])"
    by (rule before_first_char)
  have name: "(if js_substring request 0 (js_indexOf request ''/'') = [] then request
               else js_substring request 0 (js_indexOf request ''/''))
                = (if ?t = [] then request else ?t)"
    using sub by (auto simp: takeWhile_no_occurrence)
  have first: "parseDependency env request =
           Some (Inr (Some \<lparr>d_name = Some (if ?t = [] then request else ?t), d_path = None\<rparr>))"
    using assms name by (simp add: parseDependency_def)
  have second: "(if ?t = [] then request else ?t) = request"
    if "CHR ''/'' \<notin> set request \<or> js_startsWith request ''/''"
    using that by (cases request) (auto simp: takeWhile_no_occurrence js_startsWith_def)
  show ?thesis using first second by simp
qed

theorem parseDependency_missing_path_witness:
  "\<not> existsSync no_files ''lodash/get''
   \<and> parseDependency no_files ''lodash/get''
       = Some (Inr (Some \<lparr>d_name = Some ''lodash'', d_path = None\<rparr>))"
  using parseDependency_missing_path [of no_files "''lodash/get''"]
  by (simp add: no_files_def)

section \<open>The used-dependency index and the error flag\<close>

lemma get_used_set_used_same: "get_used (set_used d b e m n) b e m n"
  by (simp add: get_used_def set_used_def)

lemma get_used_set_used_mono:
  "get_used d b' e' m' n' \<Longrightarrow> get_used (set_used d b e m n) b' e' m' n'"
  by (auto simp: get_used_def set_used_def or_empty_def split: option.splits)

lemma set_used_slot:
  "set_used d b e m n b' = Some de \<Longrightarrow> de e' = Some dm \<Longrightarrow>
     (b' = b \<and> e' = e) \<or> (\<exists>de0. d b' = Some de0 \<and> de0 e' = Some dm)"
  by (auto simp: set_used_def or_empty_def split: option.splits if_splits)

lemma wf_index_set_used: "wf_index d \<Longrightarrow> wf_index (set_used d b e m n)"
  unfolding wf_index_def
proof (intro allI impI)
  fix b' de e' dm
  assume wf: "\<forall>b de e dm. d b = Some de \<longrightarrow> de e = Some dm \<longrightarrow> (\<exists>m n. get_used d b e m n)"
    and 1: "set_used d b e m n b' = Some de" and 2: "de e' = Some dm"
  from set_used_slot [OF 1 2]
  show "\<exists>m' n'. get_used (set_used d b e m n) b' e' m' n'"
  proof
    assume "b' = b \<and> e' = e"
    then show ?thesis using get_used_set_used_same by blast
  next
    assume "\<exists>de0. d b' = Some de0 \<and> de0 e' = Some dm"
    then obtain m' n' where "get_used d b' e' m' n'" using wf by blast
    then show ?thesis using get_used_set_used_mono by blast
  qed
qed

lemma wf_index_empty: "wf_index Map.empty"
  by (simp add: wf_index_def)

lemma validateDependency_state:
  "validateDependency v name m = (r, v') \<Longrightarrow>
     v_dependencies v' = v_dependencies v \<and> (v_error v \<longrightarrow> v_error v')"
  by (auto simp: validateDependency_def validateModule_def validateRequirement_def
           split: member.splits if_splits)

lemma step_same: "step_ok v v"
  by (simp add: step_ok_def)

lemma step_err: "step_ok v (v\<lparr>v_error := True\<rparr>)"
  by (simp add: step_ok_def)

lemma step_dep:
  assumes "validateDependency v name m = (cr, v1)"
  shows "step_ok v v1" and "step_ok v (v1\<lparr>v_error := True\<rparr>)"
    and "step_ok v (v1\<lparr>v_dependencies := set_used (v_dependencies v1) bn en mn name\<rparr>)"
  using validateDependency_state [OF assms] by (auto simp: step_ok_def)

lemma validateParsed_step:
  assumes "validateParsed v b e source dep = Inr (r, v')"
  shows "step_ok v v'"
  using assms
  by (auto simp: validateParsed_def Let_def step_same step_err step_dep
           split: if_splits option.splits prod.splits check_result.splits)

lemma validateReason_step:
  assumes "validateReason env v browser environment source request = Some (Inr (r, v'))"
  shows "step_ok v v'"
  using assms
  by (auto simp: validateReason_def step_same validateParsed_step
           split: option.splits sum.splits)

lemma step_ok_wf:
  "step_ok v v' \<Longrightarrow> wf_index (v_dependencies v) \<Longrightarrow> wf_index (v_dependencies v')"
  by (auto simp: step_ok_def wf_index_set_used)

lemma step_ok_used:
  "step_ok v v' \<Longrightarrow> get_used (v_dependencies v) b e m n
     \<Longrightarrow> get_used (v_dependencies v') b e m n"
  by (auto simp: step_ok_def get_used_set_used_mono)

lemma step_ok_error: "step_ok v v' \<Longrightarrow> v_error v \<Longrightarrow> v_error v'"
  by (simp add: step_ok_def)

lemma run_invariants:
  assumes "run env v calls = Some (Inr v')"
  shows "(v_error v \<longrightarrow> v_error v')
       \<and> (wf_index (v_dependencies v) \<longrightarrow> wf_index (v_dependencies v'))
       \<and> (\<forall>b e m n. get_used (v_dependencies v) b e m n
            \<longrightarrow> get_used (v_dependencies v') b e m n)"
  using assms
proof (induction calls arbitrary: v)
  case Nil
  then show ?case by simp
next
  case (Cons c calls)
  obtain browser environment source request
    where c: "c = (browser, environment, source, request)"
    by (cases c) auto
  from Cons.prems c obtain r v1 where
    1: "validateReason env v browser environment source request = Some (Inr (r, v1))"
    and 2: "run env v1 calls = Some (Inr v')"
    by (auto split: option.splits sum.splits)
  have s: "step_ok v v1" using 1 by (rule validateReason_step)
  show ?case
    using Cons.IH [OF 2] step_ok_wf [OF s] step_ok_used [OF s] step_ok_error [OF s] by blast
qed

lemma run_append:
  "run env v (pre @ post) =
     (case run env v pre of Some (Inr v1) \<Rightarrow> run env v1 post | other \<Rightarrow> other)"
  by (induction pre arbitrary: v) (auto split: option.splits sum.splits)

lemma run_wf_index:
  assumes "run env new_validator calls = Some (Inr v)"
  shows "wf_index (v_dependencies v)"
  using run_invariants [OF assms] by (simp add: new_validator_def wf_index_empty)

lemma flag_set_during_iff:
  assumes "run env new_validator calls = Some (Inr v)"
  shows "flag_set_during env calls \<longleftrightarrow> v_error v"
proof
  assume "flag_set_during env calls"
  then obtain pre post v1 where "calls = pre @ post"
    and "run env new_validator pre = Some (Inr v1)" and e: "v_error v1"
    unfolding flag_set_during_def by blast
  then have "run env v1 post = Some (Inr v)"
    using assms by (simp add: run_append)
  then show "v_error v" using run_invariants e by blast
next
  assume "v_error v"
  then show "flag_set_during env calls"
    unfolding flag_set_during_def using assms by (metis append_Nil2)
qed

lemma edge_recorded_during_iff:
  assumes "run env new_validator calls = Some (Inr v)"
  shows "edge_recorded_during env calls bn en
           \<longleftrightarrow> (\<exists>m n. get_used (v_dependencies v) bn en m n)"
proof
  assume "edge_recorded_during env calls bn en"
  then obtain pre post v1 m n where "calls = pre @ post"
    and "run env new_validator pre = Some (Inr v1)"
    and g: "get_used (v_dependencies v1) bn en m n"
    unfolding edge_recorded_during_def by blast
  then have "run env v1 post = Some (Inr v)"
    using assms by (simp add: run_append)
  then show "\<exists>m n. get_used (v_dependencies v) bn en m n" using run_invariants g by blast
next
  assume "\<exists>m n. get_used (v_dependencies v) bn en m n"
  then show "edge_recorded_during env calls bn en"
    unfolding edge_recorded_during_def using assms by (metis append_Nil2)
qed

lemma wf_index_slot:
  assumes "wf_index d"
  shows "(\<forall>de. d b = Some de \<longrightarrow> de e = None) \<longleftrightarrow> \<not> (\<exists>m n. get_used d b e m n)"
proof
  assume "\<forall>de. d b = Some de \<longrightarrow> de e = None"
  then show "\<not> (\<exists>m n. get_used d b e m n)"
    by (auto simp: get_used_def split: option.splits)
next
  assume "\<not> (\<exists>m n. get_used d b e m n)"
  then show "\<forall>de. d b = Some de \<longrightarrow> de e = None"
    using assms unfolding wf_index_def by (metis not_Some_eq)
qed

section \<open>finish on plain names\<close>

text \<open>
  When no name \<open>finish\<close> looks up is a name \<open>Object.prototype\<close> has, and no audited
  manifest has a member \<open>hasOwnProperty\<close>, every read stays in the index and the audit
  cannot throw: \<open>finish\<close> is then the two tests and the list of warnings.
\<close>

lemma read_key_plain:
  "k \<notin> set ObjectPrototype \<Longrightarrow>
     read_key obj k = (case obj k of None \<Rightarrow> Missing | Some x \<Rightarrow> Own x)"
  by (simp add: read_key_def split: option.splits)

lemma find_slot_plain:
  assumes "b \<notin> set ObjectPrototype" and "e \<notin> set ObjectPrototype"
  shows "find_slot rt idx b e =
           Inr (case idx b of None \<Rightarrow> None
                | Some de \<Rightarrow> (case de e of None \<Rightarrow> None | Some dm \<Rightarrow> Some (SlotObject dm)))"
  using assms by (simp add: find_slot_def read_key_plain split: option.splits)

lemma find_matched_plain:
  assumes "k \<notin> set ObjectPrototype"
  shows "find_matched rt (SlotObject dm) k = Inr (MatchedObject (or_empty (dm k)))"
  using assms by (simp add: find_matched_def read_key_plain or_empty_def split: option.splits)

lemma marked_plain:
  "n \<notin> set ObjectPrototype \<Longrightarrow> marked dn n \<longleftrightarrow> dn n = Some True"
  by (simp add: marked_def read_key_plain split: option.splits)

lemma check_names_object:
  assumes "map_of cur ''hasOwnProperty'' = None"
  shows "check_names rt p cur (MatchedObject dn) mo names =
           Inr (map (\<lambda>n. NotRequired p n mo)
                  (filter (\<lambda>n. \<not> js_startsWith n ''@radon-extension/'' \<and> \<not> marked dn n) names))"
proof -
  have h: "member_of cur ''hasOwnProperty'' = Inherited"
    using assms by (simp add: member_of_def ObjectPrototype_def)
  show ?thesis
    by (induction names) (simp_all add: h is_matched_def)
qed

lemma check_modules_object:
  assumes "list_all (\<lambda>m. m_name m \<notin> set ObjectPrototype
                        \<and> map_of (dependencies (m_package m)) ''hasOwnProperty'' = None) ms"
  shows "check_modules rt (SlotObject dm) ms =
           Inr (concat (map (\<lambda>m. map (\<lambda>n. NotRequired ''Dependency'' n (Some (m_name m)))
                  (filter (\<lambda>n. \<not> js_startsWith n ''@radon-extension/''
                                \<and> \<not> marked (or_empty (dm (m_name m))) n)
                     (map fst (dependencies (m_package m))))) ms))"
  using assms
  by (induction ms) (simp_all add: find_matched_plain checkDependencies_def check_names_object)

lemma finish_plain:
  assumes "plain_names b e"
  shows "finish rt v b e =
     (if v_error v then Inl BuildDidntPassValidation
      else
        (case v_dependencies v (b_name b) of
           None \<Rightarrow> Inl NoDependenciesValidated
         | Some de \<Rightarrow>
             (case de (e_name e) of
                None \<Rightarrow> Inl NoDependenciesValidated
              | Some dm \<Rightarrow>
                  Inr (map (\<lambda>n. NotRequired ''Dependency'' n None)
                         (filter (\<lambda>n. \<not> js_startsWith n ''@radon-extension/''
                                       \<and> \<not> marked (or_empty (dm ''null'')) n)
                            (map fst (dependencies (b_extension_package b))))
                       @ concat (map (\<lambda>m. map (\<lambda>n. NotRequired ''Dependency'' n (Some (m_name m)))
                           (filter (\<lambda>n. \<not> js_startsWith n ''@radon-extension/''
                                         \<and> \<not> marked (or_empty (dm (m_name m))) n)
                              (map fst (dependencies (m_package m)))))
                           (filter (\<lambda>m. m_type m \<notin> set [''package'', ''tool''])
                              (b_modules b)))))))"
proof -
  have n: "''null'' \<notin> set ObjectPrototype" by (simp add: ObjectPrototype_def)
  have b: "b_name b \<notin> set ObjectPrototype" and e: "e_name e \<notin> set ObjectPrototype"
    and t: "map_of (dependencies (b_extension_package b)) ''hasOwnProperty'' = None"
    and ms: "list_all (\<lambda>m. m_name m \<notin> set ObjectPrototype
                        \<and> map_of (dependencies (m_package m)) ''hasOwnProperty'' = None)
               (filter (\<lambda>m. m_type m \<notin> set [''package'', ''tool'']) (b_modules b))"
    using assms by (simp_all add: plain_names_def)
  show ?thesis
    unfolding finish_def find_slot_plain [OF b e]
    using ms
    by (simp add: find_matched_plain [OF n] checkDependencies_def check_names_object [OF t]
          check_modules_object split: option.splits)
qed

lemma finish_fails_on_plain_names:
  assumes "run env new_validator calls = Some (Inr v)" and "plain_names b e"
  shows "isl (finish rt v b e) \<longleftrightarrow>
           flag_set_during env calls
           \<or> \<not> edge_recorded_during env calls (b_name b) (e_name e)"
proof -
  have f: "isl (finish rt v b e) \<longleftrightarrow>
     (v_error v \<or> (\<forall>de. v_dependencies v (b_name b) = Some de \<longrightarrow> de (e_name e) = None))"
    unfolding finish_plain [OF assms(2)] by (auto split: option.splits)
  show ?thesis
    unfolding f flag_set_during_iff [OF assms(1)] edge_recorded_during_iff [OF assms(1)]
    using wf_index_slot [OF run_wf_index [OF assms(1)]] by simp
qed

lemma finish_on_plain_names_example:
  "plain_names chrome production
   \<and> (\<exists>v. run no_files new_validator [lodash_call] = Some (Inr v)
        \<and> \<not> isl (finish rt v chrome production)
        \<and> \<not> flag_set_during no_files [lodash_call]
        \<and> edge_recorded_during no_files [lodash_call] (b_name chrome) (e_name production))"
proof -
  have p: "plain_names chrome production" by code_simp
  have "(case run no_files new_validator [lodash_call] of
           Some (Inr v) \<Rightarrow> \<not> isl (finish rt v chrome production)
         | _ \<Rightarrow> False)"
    by code_simp
  then obtain v where r: "run no_files new_validator [lodash_call] = Some (Inr v)"
    and f: "\<not> isl (finish rt v chrome production)"
    by (auto split: option.splits sum.splits)
  show ?thesis
    using finish_fails_on_plain_names [OF r p, of rt] r f p by blast
qed

text \<open>
  C1. \<open>finish\<close> can throw although the error flag was never set and an edge was
  recorded under the browser and the environment. In this run the module
  \<open>@radon-extension/core\<close> requires \<open>lodash\<close>, which its manifest declares as a range: the
  flag stays unset and the edge is recorded under \<open>chrome\<close> and \<open>production\<close>. The
  extension's manifest declares a dependency named \<open>hasOwnProperty\<close>, so the audit's call
  \<open>current.hasOwnProperty(name)\<close> calls a version string, and \<open>finish\<close> throws a
  \<open>TypeError\<close>, whatever the built-ins of the runtime hold.
\<close>

theorem finish_throws_on_declared_hasOwnProperty:
  "\<forall>rt. \<exists>v. run no_files new_validator [shadowing_call] = Some (Inr v)
      \<and> finish rt v shadowing_chrome production = Inl TypeError
      \<and> \<not> v_error v
      \<and> get_used (v_dependencies v) (b_name shadowing_chrome) (e_name production)
          ''@radon-extension/core'' ''lodash''
      \<and> \<not> flag_set_during no_files [shadowing_call]
      \<and> edge_recorded_during no_files [shadowing_call]
          (b_name shadowing_chrome) (e_name production)"
proof
  fix rt
  have "(case run no_files new_validator [shadowing_call] of
           Some (Inr v) \<Rightarrow> finish rt v shadowing_chrome production = Inl TypeError
              \<and> \<not> v_error v
              \<and> get_used (v_dependencies v) (b_name shadowing_chrome) (e_name production)
                  ''@radon-extension/core'' ''lodash''
         | _ \<Rightarrow> False)"
    by code_simp
  then obtain v where r: "run no_files new_validator [shadowing_call] = Some (Inr v)"
    and f: "finish rt v shadowing_chrome production = Inl TypeError"
    and e: "\<not> v_error v"
    and g: "get_used (v_dependencies v) (b_name shadowing_chrome) (e_name production)
              ''@radon-extension/core'' ''lodash''"
    by (auto split: option.splits sum.splits)
  have "\<not> flag_set_during no_files [shadowing_call]"
    using flag_set_during_iff [OF r] e by simp
  moreover have "edge_recorded_during no_files [shadowing_call]
                   (b_name shadowing_chrome) (e_name production)"
    using edge_recorded_during_iff [OF r] g by blast
  ultimately show "\<exists>v. run no_files new_validator [shadowing_call] = Some (Inr v)
      \<and> finish rt v shadowing_chrome production = Inl TypeError
      \<and> \<not> v_error v
      \<and> get_used (v_dependencies v) (b_name shadowing_chrome) (e_name production)
          ''@radon-extension/core'' ''lodash''
      \<and> \<not> flag_set_during no_files [shadowing_call]
      \<and> edge_recorded_during no_files [shadowing_call]
          (b_name shadowing_chrome) (e_name production)"
    using r f e g by blast
qed

section \<open>Pinned versions\<close>




section \<open>Edges the declaration check never sees\<close>


lemma own_name_is_valid:
  assumes "d_name dep = Some (m_name m)" and "m_name m \<notin> set IgnoredPackages"
    and "find (\<lambda>m. js_startsWith source (m_path m)) (b_modules b) = Some m"
  shows "validateParsed v b e (Some source) dep = Inr (True, v)"
  using assms by (simp add: validateParsed_def Let_def)

lemma inherited_name_counts_as_development_dependency:
  "\<exists>v'. validateReason no_files new_validator (Some inheriting_chrome) (Some production)
           (Some ''/ext/core/src/index.js'') (Some ''constructor'') = Some (Inr (False, v'))
         \<and> v_error v'"
proof -
  have "(case validateReason no_files new_validator (Some inheriting_chrome) (Some production)
                (Some ''/ext/core/src/index.js'') (Some ''constructor'') of
           Some (Inr (r, v')) \<Rightarrow> \<not> r \<and> v_error v'
         | _ \<Rightarrow> False)"
    by code_simp
  then show ?thesis by (auto split: option.splits sum.splits)
qed


section \<open>The unused-dependency audit\<close>

text \<open>
  On plain names, and for the dependencies whose names \<open>Object.prototype\<close> does not
  have, the warnings of \<open>finish\<close> are the declared names that no edge has marked.
\<close>

lemma unused_dependency_warnings_on_plain_names:
  assumes "\<not> v_error v"
    and "v_dependencies v (b_name b) = Some de"
    and "de (e_name e) = Some dm"
    and "plain_names b e"
  shows "\<exists>ws. finish rt v b e = Inr ws
     \<and> (\<forall>p n. n \<notin> set ObjectPrototype \<longrightarrow>
          (NotRequired p n None \<in> set ws \<longleftrightarrow>
             p = ''Dependency'' \<and> n \<in> fst ` set (dependencies (b_extension_package b))
             \<and> \<not> js_startsWith n ''@radon-extension/''
             \<and> \<not> get_used (v_dependencies v) (b_name b) (e_name e) ''null'' n))
     \<and> (\<forall>p n mn. n \<notin> set ObjectPrototype \<longrightarrow>
          (NotRequired p n (Some mn) \<in> set ws \<longleftrightarrow>
             p = ''Dependency''
             \<and> (\<exists>m \<in> set (b_modules b). m_name m = mn
                   \<and> m_type m \<noteq> ''package'' \<and> m_type m \<noteq> ''tool''
                   \<and> n \<in> fst ` set (dependencies (m_package m)))
             \<and> \<not> js_startsWith n ''@radon-extension/''
             \<and> \<not> get_used (v_dependencies v) (b_name b) (e_name e) mn n))"
proof -
  have g: "get_used (v_dependencies v) (b_name b) (e_name e) mn n
             \<longleftrightarrow> marked (or_empty (dm mn)) n" if "n \<notin> set ObjectPrototype" for mn n
    using assms(2,3) that
    by (simp add: get_used_def or_empty_def marked_plain split: option.splits)
  show ?thesis
    unfolding finish_plain [OF assms(4)]
    using assms(1-3)
    apply (simp add: g)
    apply blast
    done
qed

lemma unused_dependency_warnings_example:
  "\<exists>v ws. run no_files new_validator [lodash_call] = Some (Inr v)
      \<and> finish rt v chrome production = Inr ws
      \<and> NotRequired ''Dependency'' ''spare'' (Some ''@radon-extension/core'') \<in> set ws
      \<and> NotRequired ''Dependency'' ''lodash'' (Some ''@radon-extension/core'') \<notin> set ws
      \<and> NotRequired ''Dependency'' ''@radon-extension/core'' None \<notin> set ws"
proof -
  have "(case run no_files new_validator [lodash_call] of
      Some (Inr v) \<Rightarrow> \<not> v_error v
         \<and> (case v_dependencies v (b_name chrome) of None \<Rightarrow> False
             | Some de \<Rightarrow> de (e_name production) \<noteq> None)
         \<and> \<not> get_used (v_dependencies v) (b_name chrome) (e_name production)
               ''@radon-extension/core'' ''spare''
         \<and> get_used (v_dependencies v) (b_name chrome) (e_name production)
             ''@radon-extension/core'' ''lodash''
    | _ \<Rightarrow> False)"
    by code_simp
  then obtain v de dm where r: "run no_files new_validator [lodash_call] = Some (Inr v)"
    and 1: "\<not> v_error v" and 2: "v_dependencies v (b_name chrome) = Some de"
    and 3: "de (e_name production) = Some dm"
    and 4: "\<not> get_used (v_dependencies v) (b_name chrome) (e_name production)
               ''@radon-extension/core'' ''spare''"
    and 5: "get_used (v_dependencies v) (b_name chrome) (e_name production)
               ''@radon-extension/core'' ''lodash''"
    by (auto split: option.splits sum.splits)
  have p: "plain_names chrome production" by code_simp
  have o: "''spare'' \<notin> set ObjectPrototype" "''lodash'' \<notin> set ObjectPrototype"
    "''@radon-extension/core'' \<notin> set ObjectPrototype"
    by (simp_all add: ObjectPrototype_def)
  from unused_dependency_warnings_on_plain_names [OF 1 2 3 p, of rt]
  obtain ws where f: "finish rt v chrome production = Inr ws"
    and top: "\<And>p n. n \<notin> set ObjectPrototype \<Longrightarrow> NotRequired p n None \<in> set ws \<longleftrightarrow>
          p = ''Dependency'' \<and> n \<in> fst ` set (dependencies (b_extension_package chrome))
          \<and> \<not> js_startsWith n ''@radon-extension/''
          \<and> \<not> get_used (v_dependencies v) (b_name chrome) (e_name production) ''null'' n"
    and mods: "\<And>p n mn. n \<notin> set ObjectPrototype \<Longrightarrow> NotRequired p n (Some mn) \<in> set ws \<longleftrightarrow>
          p = ''Dependency''
          \<and> (\<exists>m \<in> set (b_modules chrome). m_name m = mn
                \<and> m_type m \<noteq> ''package'' \<and> m_type m \<noteq> ''tool''
                \<and> n \<in> fst ` set (dependencies (m_package m)))
          \<and> \<not> js_startsWith n ''@radon-extension/''
          \<and> \<not> get_used (v_dependencies v) (b_name chrome) (e_name production) mn n"
    by auto
  have m: "\<exists>m \<in> set (b_modules chrome). m_name m = ''@radon-extension/core''
             \<and> m_type m \<noteq> ''package'' \<and> m_type m \<noteq> ''tool''
             \<and> ''spare'' \<in> fst ` set (dependencies (m_package m))"
    by (simp add: chrome_def core_module_def)
  have s: "\<not> js_startsWith ''spare'' ''@radon-extension/''"
    by (simp add: js_startsWith_def)
  have a: "NotRequired ''Dependency'' ''spare'' (Some ''@radon-extension/core'') \<in> set ws"
    unfolding mods [OF o(1), of "''Dependency''" "''@radon-extension/core''"]
    using m s 4 by blast
  have b: "NotRequired ''Dependency'' ''lodash'' (Some ''@radon-extension/core'') \<notin> set ws"
    unfolding mods [OF o(2), of "''Dependency''" "''@radon-extension/core''"]
    using 5 by blast
  have i: "js_startsWith ''@radon-extension/core'' ''@radon-extension/''"
    by (simp add: js_startsWith_def)
  have c: "NotRequired ''Dependency'' ''@radon-extension/core'' None \<notin> set ws"
    unfolding top [OF o(3), of "''Dependency''"]
    using i by blast
  show ?thesis using r f a b c by blast
qed

text \<open>
  C8. A declared dependency that no edge has marked can go unreported. In this run the
  module \<open>@radon-extension/core\<close>, of type \<open>core\<close>, requires \<open>lodash\<close> only; its manifest
  declares \<open>lodash\<close>, \<open>constructor\<close> and \<open>spare\<close>, none of them in \<open>@radon-extension/\<close>, and
  nothing is recorded in the index for \<open>constructor\<close>. \<open>finish\<close> returns, and its warnings
  are \<open>idle\<close> of the extension's manifest and \<open>spare\<close> of the module's: \<open>constructor\<close> is
  not among them, because \<open>matched[name]\<close> finds the member \<open>Object.prototype\<close> has under
  that name, whatever the built-ins of the runtime hold.
\<close>

theorem unused_constructor_is_not_reported:
  "\<forall>rt. \<exists>v. run no_files new_validator [inheriting_call] = Some (Inr v)
      \<and> \<not> v_error v
      \<and> inheriting_module \<in> set (b_modules inheriting_chrome)
      \<and> m_type inheriting_module \<notin> set [''package'', ''tool'']
      \<and> ''constructor'' \<in> fst ` set (dependencies (m_package inheriting_module))
      \<and> \<not> js_startsWith ''constructor'' ''@radon-extension/''
      \<and> \<not> get_used (v_dependencies v) (b_name inheriting_chrome) (e_name production)
            (m_name inheriting_module) ''constructor''
      \<and> finish rt v inheriting_chrome production
          = Inr [NotRequired ''Dependency'' ''idle'' None,
                 NotRequired ''Dependency'' ''spare'' (Some ''@radon-extension/core'')]"
proof
  fix rt
  have "(case run no_files new_validator [inheriting_call] of
           Some (Inr v) \<Rightarrow> \<not> v_error v
              \<and> \<not> get_used (v_dependencies v) (b_name inheriting_chrome) (e_name production)
                    (m_name inheriting_module) ''constructor''
              \<and> finish rt v inheriting_chrome production
                  = Inr [NotRequired ''Dependency'' ''idle'' None,
                         NotRequired ''Dependency'' ''spare'' (Some ''@radon-extension/core'')]
         | _ \<Rightarrow> False)"
    by code_simp
  then obtain v where r: "run no_files new_validator [inheriting_call] = Some (Inr v)"
    and 1: "\<not> v_error v"
    and 2: "\<not> get_used (v_dependencies v) (b_name inheriting_chrome) (e_name production)
                (m_name inheriting_module) ''constructor''"
    and 3: "finish rt v inheriting_chrome production
              = Inr [NotRequired ''Dependency'' ''idle'' None,
                     NotRequired ''Dependency'' ''spare'' (Some ''@radon-extension/core'')]"
    by (auto split: option.splits sum.splits)
  have 4: "inheriting_module \<in> set (b_modules inheriting_chrome)"
    by (simp add: inheriting_chrome_def)
  have 5: "m_type inheriting_module \<notin> set [''package'', ''tool'']"
    by (simp add: inheriting_module_def core_module_def)
  have 6: "''constructor'' \<in> fst ` set (dependencies (m_package inheriting_module))"
    by (simp add: inheriting_module_def)
  have 7: "\<not> js_startsWith ''constructor'' ''@radon-extension/''"
    by (simp add: js_startsWith_def)
  show "\<exists>v. run no_files new_validator [inheriting_call] = Some (Inr v)
      \<and> \<not> v_error v
      \<and> inheriting_module \<in> set (b_modules inheriting_chrome)
      \<and> m_type inheriting_module \<notin> set [''package'', ''tool'']
      \<and> ''constructor'' \<in> fst ` set (dependencies (m_package inheriting_module))
      \<and> \<not> js_startsWith ''constructor'' ''@radon-extension/''
      \<and> \<not> get_used (v_dependencies v) (b_name inheriting_chrome) (e_name production)
            (m_name inheriting_module) ''constructor''
      \<and> finish rt v inheriting_chrome production
          = Inr [NotRequired ''Dependency'' ''idle'' None,
                 NotRequired ''Dependency'' ''spare'' (Some ''@radon-extension/core'')]"
    using r 1 2 3 4 5 6 7 by blast
qed

section \<open>Link registration and resolution\<close>

lemma js_startsWith_append: "js_startsWith (t @ rest) t"
  by (simp add: js_startsWith_def)

lemma js_indexOf_startsWith: "js_startsWith s t \<Longrightarrow> js_indexOf s t = 0"
  by (cases s) (auto simp: js_startsWith_def)

lemma js_indexOf_prefix: "js_indexOf (t @ rest) t = 0"
  by (simp add: js_indexOf_startsWith js_startsWith_append)

lemma link_entries_set_link:
  "link_entries (set_link links b e target source) b e
     = assign target source (link_entries links b e)"
  by (simp add: link_entries_def set_link_def)

lemma link_entries_empty: "link_entries Map.empty b e = []"
  by (simp add: link_entries_def)

lemma parse_link_source:
  "parseDependency linked_files ''/work/node_modules/x''
     = Some (Inr (Some \<lparr>d_name = Some ''x'', d_path = Some ''/work/node_modules/x''\<rparr>))"
  by code_simp

text \<open>
  C3, as the source has it. \<open>registerLink(browser, environment, source, target)\<close> files
  the link's own path \<open>source\<close> under the key \<open>target\<close>, the path the link points to, and
  \<open>resolveLink\<close> looks for a registered \<open>target\<close> in the path and puts the \<open>source\<close> in its
  place. After a registration on an empty registry, of a link whose package is outside
  \<open>@radon-extension/\<close>, a path under the target resolves to the same path under the
  source: \<open>/modules/x/lib/y.js\<close> becomes \<open>/work/node_modules/x/lib/y.js\<close>.
\<close>

theorem resolveLink_after_registerLink:
  assumes "parseDependency env source = Some (Inr (Some dep))"
    and "d_name dep = Some name"
    and "js_indexOf name ''@radon-extension/'' \<noteq> 0"
  shows "\<exists>links. registerLink env Map.empty b e source target = Some (Inr links)
           \<and> resolveLink links b e (Some (target @ rest)) = Some (source @ rest)"
proof -
  let ?links = "set_link Map.empty (b_name b) (e_name e) target source"
  have reg: "registerLink env Map.empty b e source target = Some (Inr ?links)"
    using assms by (simp add: registerLink_def link_entries_empty)
  have "clampIndex (target @ rest) (int (length target)) = length target"
    by (simp add: clampIndex_def)
  then have "resolveLink ?links b e (Some (target @ rest)) = Some (source @ rest)"
    by (simp add: resolveLink_def link_entries_set_link link_entries_empty js_indexOf_prefix
          js_substringFrom_def)
  then show ?thesis using reg by blast
qed

theorem resolveLink_after_registerLink_witness:
  "\<exists>links. registerLink linked_files Map.empty chrome production
              ''/work/node_modules/x'' ''/modules/x'' = Some (Inr links)
      \<and> resolveLink links chrome production (Some ''/modules/x/lib/y.js'')
          = Some ''/work/node_modules/x/lib/y.js''"
proof -
  have 2: "d_name \<lparr>d_name = Some ''x'', d_path = Some ''/work/node_modules/x''\<rparr> = Some ''x''"
    by simp
  have 3: "js_indexOf ''x'' ''@radon-extension/'' \<noteq> 0"
    by (simp add: js_startsWith_def)
  show ?thesis
    using resolveLink_after_registerLink [OF parse_link_source 2 3, of chrome production
        "''/modules/x''" "''/lib/y.js''"]
    by simp
qed

text \<open>
  The example of the specification runs the other way, and fails: after the same
  registration, \<open>/work/node_modules/x/lib/y.js\<close> holds no occurrence of the registered
  target \<open>/modules/x\<close> and is returned as it is.
\<close>

theorem resolveLink_spec_example_counterexample:
  "registerLink linked_files Map.empty chrome production
       ''/work/node_modules/x'' ''/modules/x''
     = Some (Inr (set_link Map.empty ''chrome'' ''production''
                    ''/modules/x'' ''/work/node_modules/x''))
   \<and> resolveLink (set_link Map.empty ''chrome'' ''production''
                    ''/modules/x'' ''/work/node_modules/x'')
        chrome production (Some ''/work/node_modules/x/lib/y.js'')
       = Some ''/work/node_modules/x/lib/y.js''
   \<and> resolveLink (set_link Map.empty ''chrome'' ''production''
                    ''/modules/x'' ''/work/node_modules/x'')
        chrome production (Some ''/work/node_modules/x/lib/y.js'')
       \<noteq> Some ''/modules/x/lib/y.js''"
proof -
  have 3: "js_indexOf ''x'' ''@radon-extension/'' \<noteq> 0"
    by (simp add: js_startsWith_def)
  have reg: "registerLink linked_files Map.empty chrome production
                 ''/work/node_modules/x'' ''/modules/x''
     = Some (Inr (set_link Map.empty ''chrome'' ''production''
                    ''/modules/x'' ''/work/node_modules/x''))"
    using 3
    by (simp add: registerLink_def parse_link_source link_entries_empty chrome_def
          production_def)
  have i: "js_indexOf ''/work/node_modules/x/lib/y.js'' ''/modules/x'' = - 1"
    by code_simp
  have res: "resolveLink (set_link Map.empty ''chrome'' ''production''
                    ''/modules/x'' ''/work/node_modules/x'')
        chrome production (Some ''/work/node_modules/x/lib/y.js'')
       = Some ''/work/node_modules/x/lib/y.js''"
    using i
    by (simp add: resolveLink_def link_entries_set_link link_entries_empty chrome_def
          production_def)
  show ?thesis using reg res by simp
qed

section \<open>Target branches of a release tag\<close>

lemma series_not_named: "series_branch v \<noteq> ''develop''" "series_branch v \<noteq> ''master''"
  by (simp_all add: series_branch_def)

text \<open>
  C5. For every valid semantic-version tag, \<open>getTargetBranches\<close> returns, in this order,
  \<open>develop\<close> exactly when the patch number is zero, then the series branch
  \<open>v<major>.<minor>\<close>, then \<open>master\<close> exactly when the tag has no pre-release part. In
  particular \<open>v1.2.0\<close> gives \<open>develop\<close>, \<open>v1.2\<close> and \<open>master\<close>; \<open>v1.2.3\<close> gives \<open>v1.2\<close>
  and \<open>master\<close>; \<open>v1.2.3-beta.1\<close> gives \<open>v1.2\<close> alone.
\<close>

theorem getTargetBranches_valid_tag:
  assumes "semver_parse tag = Some v"
  shows "(\<exists>branches. getTargetBranches tag = Inr branches
           \<and> branches = (if patch v = 0 then [''develop''] else []) @ [series_branch v]
                          @ (if prerelease v = [] then [''master''] else [])
           \<and> (''develop'' \<in> set branches \<longleftrightarrow> patch v = 0)
           \<and> series_branch v \<in> set branches
           \<and> (''master'' \<in> set branches \<longleftrightarrow> prerelease v = []))
       \<and> getTargetBranches ''v1.2.0'' = Inr [''develop'', ''v1.2'', ''master'']
       \<and> getTargetBranches ''v1.2.3'' = Inr [''v1.2'', ''master'']
       \<and> getTargetBranches ''v1.2.3-beta.1'' = Inr [''v1.2'']"
proof -
  have a: "getTargetBranches ''v1.2.0'' = Inr [''develop'', ''v1.2'', ''master'']"
    by code_simp
  have b: "getTargetBranches ''v1.2.3'' = Inr [''v1.2'', ''master'']"
    by code_simp
  have c: "getTargetBranches ''v1.2.3-beta.1'' = Inr [''v1.2'']"
    by code_simp
  have g: "\<exists>branches. getTargetBranches tag = Inr branches
           \<and> branches = (if patch v = 0 then [''develop''] else []) @ [series_branch v]
                          @ (if prerelease v = [] then [''master''] else [])
           \<and> (''develop'' \<in> set branches \<longleftrightarrow> patch v = 0)
           \<and> series_branch v \<in> set branches
           \<and> (''master'' \<in> set branches \<longleftrightarrow> prerelease v = [])"
    using assms series_not_named [of v]
    by (auto simp: getTargetBranches_def)
  show ?thesis using a b c g by blast
qed

lemma parse_release_candidate:
  "semver_parse ''v10.20.0-rc.1''
     = Some \<lparr>major = 10, minor = 20, patch = 0, prerelease = [''rc'', ''1''], build = []\<rparr>"
  by code_simp

theorem getTargetBranches_valid_tag_witness:
  "semver_parse ''v10.20.0-rc.1''
     = Some \<lparr>major = 10, minor = 20, patch = 0, prerelease = [''rc'', ''1''], build = []\<rparr>
   \<and> getTargetBranches ''v10.20.0-rc.1'' = Inr [''develop'', ''v10.20'']"
proof -
  have s: "series_branch
             \<lparr>major = 10, minor = 20, patch = 0, prerelease = [''rc'', ''1''], build = []\<rparr>
           = ''v10.20''"
    by code_simp
  show ?thesis
    using getTargetBranches_valid_tag [OF parse_release_candidate] parse_release_candidate s
    by simp
qed

section \<open>The polling loops end\<close>

declare getTravisStatus_run.simps [simp del] awaitTravisBuild_run.simps [simp del]

lemma status_run_requests:
  "p_requests (getTravisStatus_run options api attempts) \<le> retryAttempts options - attempts"
proof (induction options api attempts rule: getTravisStatus_run.induct)
  case (1 options api attempts)
  show ?case
  proof (cases "retryAttempts options < Suc attempts")
    case True
    then show ?thesis
      by (subst getTravisStatus_run.simps) (simp add: gave_up_def)
  next
    case False
    show ?thesis
    proof (cases "onCombinedStatus options (api (Suc attempts))")
      case (Again d)
      with False 1 [OF False Again] show ?thesis
        by (subst getTravisStatus_run.simps) (simp add: after_request_def)
    next
      case (Settle r)
      with False show ?thesis
        by (subst getTravisStatus_run.simps) (simp add: settled_def)
    qed
  qed
qed

lemma status_run_timeout:
  assumes "p_result (getTravisStatus_run options api attempts) = Inl UnableToRetrieveTravisStatus"
    and "attempts \<le> retryAttempts options"
  shows "p_requests (getTravisStatus_run options api attempts) = retryAttempts options - attempts"
  using assms
proof (induction options api attempts rule: getTravisStatus_run.induct)
  case (1 options api attempts)
  show ?case
  proof (cases "retryAttempts options < Suc attempts")
    case True
    with "1.prems" show ?thesis
      by (subst getTravisStatus_run.simps) (simp add: gave_up_def)
  next
    case False
    show ?thesis
    proof (cases "onCombinedStatus options (api (Suc attempts))")
      case (Again d)
      have "p_result (getTravisStatus_run options api (Suc attempts)) = Inl UnableToRetrieveTravisStatus"
        using "1.prems"(1) False Again
        by (subst (asm) getTravisStatus_run.simps) (simp add: after_request_def)
      then have "p_requests (getTravisStatus_run options api (Suc attempts))
                   = retryAttempts options - Suc attempts"
        using "1.IH" [OF False Again] False by simp
      with False Again show ?thesis
        by (subst getTravisStatus_run.simps) (simp add: after_request_def)
    next
      case (Settle r)
      have "r \<noteq> Inl UnableToRetrieveTravisStatus"
        using Settle
        by (auto simp: onCombinedStatus_def split: sum.splits prod.splits if_splits option.splits)
      with "1.prems"(1) False Settle show ?thesis
        by (subst (asm) getTravisStatus_run.simps) (simp add: settled_def)
    qed
  qed
qed

lemma status_run_all_retry:
  assumes "\<forall>k. attempts < k \<and> k \<le> retryAttempts options \<longrightarrow> status_retries options (api k)"
  shows "p_result (getTravisStatus_run options api attempts) = Inl UnableToRetrieveTravisStatus"
  using assms
proof (induction options api attempts rule: getTravisStatus_run.induct)
  case (1 options api attempts)
  show ?case
  proof (cases "retryAttempts options < Suc attempts")
    case True
    then show ?thesis
      by (subst getTravisStatus_run.simps) (simp add: gave_up_def)
  next
    case False
    then have "status_retries options (api (Suc attempts))"
      using "1.prems" by simp
    then obtain d where Again: "onCombinedStatus options (api (Suc attempts)) = Again d"
      by (auto simp: status_retries_def split: reaction.splits)
    have "p_result (getTravisStatus_run options api (Suc attempts)) = Inl UnableToRetrieveTravisStatus"
      using "1.IH" [OF False Again] "1.prems" by simp
    with False Again show ?thesis
      by (subst getTravisStatus_run.simps) (simp add: after_request_def)
  qed
qed

lemma build_run_requests:
  "p_requests (awaitTravisBuild_run options ref api attempts interval)
     \<le> maximumAttempts options - attempts"
proof (induction options ref api attempts interval rule: awaitTravisBuild_run.induct)
  case (1 options ref api attempts interval)
  show ?case
  proof (cases "maximumAttempts options < Suc attempts")
    case True
    then show ?thesis
      by (subst awaitTravisBuild_run.simps) (simp add: gave_up_def)
  next
    case False
    show ?thesis
    proof (cases "onBuild options ref (next_interval options (Suc attempts) interval) (api (Suc attempts))")
      case (Again d)
      with False 1 [OF False Again] show ?thesis
        by (subst awaitTravisBuild_run.simps) (simp add: after_request_def)
    next
      case (Settle r)
      with False show ?thesis
        by (subst awaitTravisBuild_run.simps) (simp add: settled_def)
    qed
  qed
qed

lemma onBuild_retries:
  "build_retries options ref response \<Longrightarrow> \<exists>d. onBuild options ref interval response = Again d"
  by (auto simp: build_retries_def onBuild_def split: sum.splits prod.splits if_splits)

lemma onBuild_not_timeout: "onBuild options ref interval response \<noteq> Settle (Inl BuildTimeout)"
  by (auto simp: onBuild_def split: sum.splits prod.splits if_splits)

lemma build_run_timeout:
  assumes "p_result (awaitTravisBuild_run options ref api attempts interval) = Inl BuildTimeout"
    and "attempts \<le> maximumAttempts options"
  shows "p_requests (awaitTravisBuild_run options ref api attempts interval)
           = maximumAttempts options - attempts"
  using assms
proof (induction options ref api attempts interval rule: awaitTravisBuild_run.induct)
  case (1 options ref api attempts interval)
  let ?i = "next_interval options (Suc attempts) interval"
  show ?case
  proof (cases "maximumAttempts options < Suc attempts")
    case True
    with "1.prems" show ?thesis
      by (subst awaitTravisBuild_run.simps) (simp add: gave_up_def)
  next
    case False
    show ?thesis
    proof (cases "onBuild options ref ?i (api (Suc attempts))")
      case (Again d)
      have "p_result (awaitTravisBuild_run options ref api (Suc attempts) ?i) = Inl BuildTimeout"
        using "1.prems"(1) False Again
        by (subst (asm) awaitTravisBuild_run.simps) (simp add: after_request_def)
      then have "p_requests (awaitTravisBuild_run options ref api (Suc attempts) ?i)
                   = maximumAttempts options - Suc attempts"
        using "1.IH" [OF False Again] False by simp
      with False Again show ?thesis
        by (subst awaitTravisBuild_run.simps) (simp add: after_request_def)
    next
      case (Settle r)
      have "r \<noteq> Inl BuildTimeout"
        using Settle onBuild_not_timeout by metis
      with "1.prems"(1) False Settle show ?thesis
        by (subst (asm) awaitTravisBuild_run.simps) (simp add: settled_def)
    qed
  qed
qed

lemma build_run_all_retry:
  assumes "\<forall>k. attempts < k \<and> k \<le> maximumAttempts options \<longrightarrow> build_retries options ref (api k)"
  shows "p_result (awaitTravisBuild_run options ref api attempts interval) = Inl BuildTimeout"
  using assms
proof (induction options ref api attempts interval rule: awaitTravisBuild_run.induct)
  case (1 options ref api attempts interval)
  let ?i = "next_interval options (Suc attempts) interval"
  show ?case
  proof (cases "maximumAttempts options < Suc attempts")
    case True
    then show ?thesis
      by (subst awaitTravisBuild_run.simps) (simp add: gave_up_def)
  next
    case False
    then have "build_retries options ref (api (Suc attempts))"
      using "1.prems" by simp
    then obtain d where Again: "onBuild options ref ?i (api (Suc attempts)) = Again d"
      using onBuild_retries by blast
    have "p_result (awaitTravisBuild_run options ref api (Suc attempts) ?i) = Inl BuildTimeout"
      using "1.IH" [OF False Again] "1.prems" by simp
    with False Again show ?thesis
      by (subst awaitTravisBuild_run.simps) (simp add: after_request_def)
  qed
qed

text \<open>
  C9. Both polling loops end, whatever the service answers (they are total functions:
  each \<open>run\<close> that sends a request has counted one more attempt against a fixed budget).
  With a budget of \<open>N\<close> attempts, \<open>getTravisStatus\<close> sends at most \<open>N\<close> status requests;
  when it rejects with its own error it has sent exactly \<open>N\<close> (attempts are counted from
  1 and the failure comes after the \<open>N\<close>-th attempt, not before); and when each of the
  first \<open>N\<close> answers asks for a retry, it does reject with that error. The same holds of
  \<open>awaitTravisBuild\<close>, its \<open>maximumAttempts\<close> and its build-timeout error.
\<close>

theorem polling_is_bounded:
  "p_requests (getTravisStatus options status_api) \<le> retryAttempts options
   \<and> (p_result (getTravisStatus options status_api) = Inl UnableToRetrieveTravisStatus
        \<longrightarrow> p_requests (getTravisStatus options status_api) = retryAttempts options)
   \<and> ((\<forall>k. 1 \<le> k \<and> k \<le> retryAttempts options \<longrightarrow> status_retries options (status_api k))
        \<longrightarrow> p_result (getTravisStatus options status_api) = Inl UnableToRetrieveTravisStatus
            \<and> p_requests (getTravisStatus options status_api) = retryAttempts options)
   \<and> p_requests (awaitTravisBuild build_opts ref build_api) \<le> maximumAttempts build_opts
   \<and> (p_result (awaitTravisBuild build_opts ref build_api) = Inl BuildTimeout
        \<longrightarrow> p_requests (awaitTravisBuild build_opts ref build_api) = maximumAttempts build_opts)
   \<and> ((\<forall>k. 1 \<le> k \<and> k \<le> maximumAttempts build_opts \<longrightarrow> build_retries build_opts ref (build_api k))
        \<longrightarrow> p_result (awaitTravisBuild build_opts ref build_api) = Inl BuildTimeout
            \<and> p_requests (awaitTravisBuild build_opts ref build_api) = maximumAttempts build_opts)"
proof -
  have s1: "p_requests (getTravisStatus options status_api) \<le> retryAttempts options"
    using status_run_requests [of options status_api 0] by (simp add: getTravisStatus_def)
  have s2: "p_requests (getTravisStatus options status_api) = retryAttempts options"
    if "p_result (getTravisStatus options status_api) = Inl UnableToRetrieveTravisStatus"
    using that status_run_timeout [of options status_api 0] by (simp add: getTravisStatus_def)
  have s3: "p_result (getTravisStatus options status_api) = Inl UnableToRetrieveTravisStatus"
    if "\<forall>k. 1 \<le> k \<and> k \<le> retryAttempts options \<longrightarrow> status_retries options (status_api k)"
    using that status_run_all_retry [of 0 options status_api] by (simp add: getTravisStatus_def)
  have b1: "p_requests (awaitTravisBuild build_opts ref build_api) \<le> maximumAttempts build_opts"
    using build_run_requests [of build_opts ref build_api 0] by (simp add: awaitTravisBuild_def)
  have b2: "p_requests (awaitTravisBuild build_opts ref build_api) = maximumAttempts build_opts"
    if "p_result (awaitTravisBuild build_opts ref build_api) = Inl BuildTimeout"
    using that build_run_timeout [of build_opts ref build_api 0] by (simp add: awaitTravisBuild_def)
  have b3: "p_result (awaitTravisBuild build_opts ref build_api) = Inl BuildTimeout"
    if "\<forall>k. 1 \<le> k \<and> k \<le> maximumAttempts build_opts \<longrightarrow> build_retries build_opts ref (build_api k)"
    using that build_run_all_retry [of 0 build_opts ref build_api] by (simp add: awaitTravisBuild_def)
  show ?thesis using s1 s2 s3 b1 b2 b3 by blast
qed

theorem polling_is_bounded_witness:
  "p_result (getTravisStatus default_status_options (\<lambda>k. Inr (''0a1b2c'', [])))
     = Inl UnableToRetrieveTravisStatus
   \<and> p_requests (getTravisStatus default_status_options (\<lambda>k. Inr (''0a1b2c'', []))) = 20
   \<and> p_result (awaitTravisBuild default_build_options ''master''
                 (\<lambda>k. Inr (''started'', ''master''))) = Inl BuildTimeout
   \<and> p_requests (awaitTravisBuild default_build_options ''master''
                   (\<lambda>k. Inr (''started'', ''master''))) = 120"
proof -
  have s: "\<forall>k. 1 \<le> k \<and> k \<le> retryAttempts default_status_options
             \<longrightarrow> status_retries default_status_options (Inr (''0a1b2c'', []))"
    by (simp add: status_retries_def onCombinedStatus_def default_status_options_def)
  have b: "\<forall>k. 1 \<le> k \<and> k \<le> maximumAttempts default_build_options
             \<longrightarrow> build_retries default_build_options ''master'' (Inr (''started'', ''master''))"
    by (simp add: build_retries_def onBuild_def)
  have n: "retryAttempts default_status_options = 20"
    "maximumAttempts default_build_options = 120"
    by (simp_all add: default_status_options_def default_build_options_def)
  show ?thesis
    using polling_is_bounded [of default_status_options "\<lambda>k. Inr (''0a1b2c'', [])"
        default_build_options "''master''" "\<lambda>k. Inr (''started'', ''master'')"] s b n
    by simp
qed

lemma polling_examples:
  "getTravisStatus (default_status_options\<lparr>retryAttempts := 2\<rparr>) (\<lambda>k. Inr (''0a1b2c'', []))
     = \<lparr>p_result = Inl UnableToRetrieveTravisStatus, p_requests = 2,
        p_timers = [30000, 15000, 15000]\<rparr>"
  "awaitTravisBuild default_build_options ''master''
       (\<lambda>k. if k < 3 then Inr (''started'', ''master'') else Inr (''passed'', ''master''))
     = \<lparr>p_result = Inr ''passed'', p_requests = 3, p_timers = [15000, 15000]\<rparr>"
  by code_simp+

section \<open>Cloning is idempotent\<close>

lemma js_indexOf_zero_iff: "js_indexOf s p = 0 \<longleftrightarrow> js_startsWith s p"
proof
  assume "js_startsWith s p"
  then show "js_indexOf s p = 0" by (cases s) (auto simp: js_startsWith_def)
next
  assume z: "js_indexOf s p = 0"
  show "js_startsWith s p"
  proof (cases s)
    case Nil
    with z show ?thesis by (auto simp: js_startsWith_def split: if_splits)
  next
    case (Cons c t)
    have "- 1 \<le> js_indexOf t p" by (induction t) (auto simp: Let_def)
    with z Cons show ?thesis
      by (auto simp: Let_def split: if_splits)
  qed
qed

lemma cloneBranch_effect:
  assumes "cloneBranch net modulesPath name localPath branch env = (r, ops, env')"
  shows "path_join env' = path_join env
       \<and> (existsSync env localPath \<longrightarrow> existsSync env' localPath)
       \<and> (\<forall>x. r = Inr x \<longrightarrow> existsSync env' localPath)"
  using assms by (auto simp: cloneBranch_def split: if_splits)

lemma resolveOne_cloneBranch:
  assumes "resolveOne branches (cloneBranch net modulesPath name localPath) env = (r, ops, env')"
  shows "path_join env' = path_join env \<and> (\<forall>x. r = Inr x \<longrightarrow> existsSync env' localPath)"
  using assms
proof (induction branches arbitrary: env r ops env')
  case Nil
  then show ?case by auto
next
  case (Cons b branches)
  obtain r1 ops1 env1 where c: "cloneBranch net modulesPath name localPath b env = (r1, ops1, env1)"
    by (cases "cloneBranch net modulesPath name localPath b env") auto
  note e = cloneBranch_effect [OF c]
  show ?case
  proof (cases r1)
    case (Inr x)
    with Cons.prems c have "r = Inr x" "env' = env1" by auto
    with e Inr show ?thesis by simp
  next
    case (Inl err)
    obtain r2 ops2 env2 where
      rest: "resolveOne branches (cloneBranch net modulesPath name localPath) env1 = (r2, ops2, env2)"
      by (cases "resolveOne branches (cloneBranch net modulesPath name localPath) env1") auto
    with Cons.prems c Inl have "r = r2" "env' = env2" by auto
    with Cons.IH [OF rest] e show ?thesis by simp
  qed
qed

text \<open>
  C6. For every name that starts with \<open>radon-extension-\<close>: when the local module path
  \<open>target/.modules/name\<close> exists, \<open>clone\<close> resolves \<open>{branch, localPath}\<close> with no call of
  \<open>Github.exists\<close> or \<open>Git.clone\<close> and leaves the filesystem as it is; and after any call
  that resolved, a second call (for any branch) resolves with no call of either
  collaborator.
\<close>

theorem clone_is_idempotent:
  assumes "js_startsWith name ''radon-extension-''"
  shows "(existsSync env (path_join env (path_join env target ''.modules'') name) \<longrightarrow>
            clone env net target branch name =
              (Inr \<lparr>c_branch = branch,
                     c_localPath = path_join env (path_join env target ''.modules'') name\<rparr>,
               [], env))
       \<and> (\<forall>r ops env'. clone env net target branch name = (Inr r, ops, env') \<longrightarrow>
            (\<forall>branch'. clone env' net target branch' name =
               (Inr \<lparr>c_branch = branch',
                      c_localPath = path_join env (path_join env target ''.modules'') name\<rparr>,
                [], env')))"
proof -
  let ?localPath = "path_join env (path_join env target ''.modules'') name"
  have n: "js_indexOf name ''radon-extension-'' = 0"
    using assms by (simp add: js_indexOf_zero_iff)
  have first: "clone env net target branch name
                 = (Inr \<lparr>c_branch = branch, c_localPath = ?localPath\<rparr>, [], env)"
    if "existsSync env ?localPath"
    using that n by (simp add: clone_def)
  have second: "clone env' net target branch' name
                 = (Inr \<lparr>c_branch = branch', c_localPath = ?localPath\<rparr>, [], env')"
    if c: "clone env net target branch name = (Inr r, ops, env')" for r ops env' branch'
  proof -
    have "path_join env' = path_join env \<and> existsSync env' ?localPath"
    proof (cases "existsSync env ?localPath")
      case True
      with c n show ?thesis by (simp add: clone_def)
    next
      case False
      with c n have "resolveOne (getBranches branch)
             (cloneBranch net (path_join env target ''.modules'') name ?localPath) env
               = (Inr r, ops, env')"
        by (simp add: clone_def)
      from resolveOne_cloneBranch [OF this] show ?thesis by simp
    qed
    then show ?thesis using n by (simp add: clone_def)
  qed
  show ?thesis using first second by blast
qed

lemma first_clone:
  "clone no_files github ''/work'' ''my-feature'' ''radon-extension-core''
     = (Inr \<lparr>c_branch = ''develop'', c_localPath = ''/work/.modules/radon-extension-core''\<rparr>,
        [GithubExists ''radon-extension-core'' ''my-feature'',
         GithubExists ''radon-extension-core'' ''develop'',
         GitClone ''/work/.modules'' ''https://github.com/RadonApp/radon-extension-core.git''
           ''/work/.modules/radon-extension-core'' [''-b'', ''develop'']],
        cloned_files)"
  by (simp add: clone_def no_files_def github_def getBranches_def semver_parse_def
        js_startsWith_def cloneBranch_def repository_url_def Let_def cloned_files_def)

theorem clone_is_idempotent_witness:
  "js_startsWith ''radon-extension-core'' ''radon-extension-''
   \<and> clone no_files github ''/work'' ''my-feature'' ''radon-extension-core''
       = (Inr \<lparr>c_branch = ''develop'', c_localPath = ''/work/.modules/radon-extension-core''\<rparr>,
          [GithubExists ''radon-extension-core'' ''my-feature'',
           GithubExists ''radon-extension-core'' ''develop'',
           GitClone ''/work/.modules'' ''https://github.com/RadonApp/radon-extension-core.git''
             ''/work/.modules/radon-extension-core'' [''-b'', ''develop'']],
          cloned_files)
   \<and> clone cloned_files github ''/work'' ''my-feature'' ''radon-extension-core''
       = (Inr \<lparr>c_branch = ''my-feature'',
                c_localPath = ''/work/.modules/radon-extension-core''\<rparr>, [], cloned_files)"
proof -
  have n: "js_startsWith ''radon-extension-core'' ''radon-extension-''"
    by (simp add: js_startsWith_def)
  have p: "path_join no_files (path_join no_files ''/work'' ''.modules'') ''radon-extension-core''
             = ''/work/.modules/radon-extension-core''"
    by (simp add: no_files_def)
  from clone_is_idempotent [OF n, of no_files "''/work''" github "''my-feature''"]
  have "\<forall>r ops env'. clone no_files github ''/work'' ''my-feature'' ''radon-extension-core''
                         = (Inr r, ops, env') \<longrightarrow>
            (\<forall>branch'. clone env' github ''/work'' branch' ''radon-extension-core'' =
               (Inr \<lparr>c_branch = branch', c_localPath = ''/work/.modules/radon-extension-core''\<rparr>,
                [], env'))"
    unfolding p by blast
  then have "clone cloned_files github ''/work'' ''my-feature'' ''radon-extension-core''
       = (Inr \<lparr>c_branch = ''my-feature'',
                c_localPath = ''/work/.modules/radon-extension-core''\<rparr>, [], cloned_files)"
    using first_clone by blast
  then show ?thesis using n first_clone by blast
qed

section \<open>Updating a manifest that declares none of the versions\<close>

lemma object_isEqual_refl: "object_isEqual a a"
  by (simp add: object_isEqual_def)

lemma manifest_isEqual_refl: "manifest_isEqual a a"
  by (simp add: manifest_isEqual_def optional_isEqual_def object_isEqual_refl split: option.splits)

lemma updateVersions_no_match:
  assumes "case declared of None \<Rightarrow> True | Some deps \<Rightarrow> name \<notin> fst ` set deps"
    and "name \<notin> set ObjectPrototype"
  shows "updateVersions formatVersion [(name, dep)] declared group_name = Inr declared"
proof (cases declared)
  case None
  then show ?thesis by (simp add: updateVersions_def)
next
  case (Some deps)
  then have "map_of deps name = None"
    using assms(1) by (simp add: map_of_eq_None_iff)
  then have "member_of deps name = Missing"
    using assms(2) by (simp add: member_of_def)
  then show ?thesis
    using Some by (simp add: updateVersions_def spread_def)
qed

text \<open>
  For a name \<open>Object.prototype\<close> does not have and the manifest does not declare,
  \<open>updatePackage\<close> returns the manifest it was given, and \<open>writePackage\<close> resolves \<open>false\<close>
  and writes nothing.
\<close>

lemma updatePackage_without_match_on_plain_name:
  assumes "\<not> declares pkg name" and "name \<notin> set ObjectPrototype"
  shows "updatePackage formatVersion pkg (Some [(name, VersionValue (Some ''2.0.0''))]) = Inr pkg
       \<and> (\<forall>isDirectory data.
             pf_isDirectory files path = Some isDirectory
             \<and> pf_contents files (if isDirectory then pf_join files path ''package.json'' else path)
                 = Some data
             \<and> pf_parse files data = Some pkg
             \<longrightarrow> writePackage formatVersion files path
                   (Some [(name, VersionValue (Some ''2.0.0''))])
                 = (Inr False, pf_contents files))"
proof -
  let ?versions = "Some [(name, VersionValue (Some ''2.0.0''))]"
  have d: "case mf_dependencies pkg of None \<Rightarrow> True | Some deps \<Rightarrow> name \<notin> fst ` set deps"
    and p: "case mf_peerDependencies pkg of None \<Rightarrow> True | Some deps \<Rightarrow> name \<notin> fst ` set deps"
    using assms(1) by (auto simp: declares_def split: option.splits)
  have u: "updatePackage formatVersion pkg ?versions = Inr pkg"
    by (simp add: updatePackage_def updateVersions_no_match [OF d assms(2)]
          updateVersions_no_match [OF p assms(2)])
  have w: "writePackage formatVersion files path ?versions = (Inr False, pf_contents files)"
    if "pf_isDirectory files path = Some isDirectory"
      and "pf_contents files (if isDirectory then pf_join files path ''package.json'' else path)
             = Some data"
      and "pf_parse files data = Some pkg" for isDirectory data
    using that u by (simp add: writePackage_def manifest_isEqual_refl)
  show ?thesis using u w by blast
qed

lemma updatePackage_examples:
  "updatePackage keep_version
     \<lparr>mf_dependencies = Some [(''neon-extension-core'', ''1.9.0''),
                              (''neon-extension-framework'', ''1.9.0''),
                              (''neon-extension-destination-lastfm'', ''1.9.0''),
                              (''neon-extension-destination-librefm'', ''1.9.0'')],
      mf_peerDependencies = None, mf_other = [(''name'', ''neon-extension-chrome'')]\<rparr>
     (Some [(''neon-extension-framework'', VersionValue (Some ''2.0.0'')),
            (''neon-extension-destination-lastfm'', VersionValue (Some ''2.0.0''))])
   = Inr \<lparr>mf_dependencies = Some [(''neon-extension-core'', ''1.9.0''),
                              (''neon-extension-framework'', ''2.0.0''),
                              (''neon-extension-destination-lastfm'', ''2.0.0''),
                              (''neon-extension-destination-librefm'', ''1.9.0'')],
      mf_peerDependencies = None, mf_other = [(''name'', ''neon-extension-chrome'')]\<rparr>"
  "writePackage keep_version work_files ''/work''
     (Some [(''neon-extension-core'', VersionValue (Some ''2.0.0''))])
   = (Inr True, [''/work/package.json'' \<mapsto> ''{ a rewritten manifest }'' @ [CHR 0x0A]])"
  "writePackage keep_version work_files ''/work''
     (Some [(''neon-extension-destination-lastfm'', VersionValue (Some ''2.0.0''))])
   = (Inr False, pf_contents work_files)"
  by (simp_all add: updatePackage_def updateVersions_def nonempty_object_def spread_def
        keep_version_def writePackage_def work_files_def chrome_manifest_def
        manifest_isEqual_def optional_isEqual_def object_isEqual_def js_startsWith_def
        member_of_def ObjectPrototype_def)


section \<open>A repository without a commit\<close>

lemma runSequential_first_failure:
  assumes "\<forall>x \<in> set before. \<not> isl (fst (f x))"
    and "fst (f x) = Inl err"
  shows "fst (runSequential (before @ x # after) f) = Inl err"
  using assms
proof (induction before)
  case Nil
  then show ?case by (cases "f x") auto
next
  case (Cons b before)
  have "\<not> isl (fst (f b))" using Cons.prems by simp
  then obtain r logged where b: "f b = (Inr r, logged)"
    by (cases "f b"; cases "fst (f b)") auto
  have "fst (runSequential (before @ x # after) f) = Inl err"
    using Cons by simp
  then show ?case
    using b by (cases "runSequential (before @ x # after) f") (auto split: sum.splits)
qed

text \<open>
  C4, as the source has it. When the repository status resolved for a module has no
  commit and is not dirty, \<open>resolve\<close> logs an error and its promise is rejected (with no
  reason): the stages after the repository stage do not run, and nothing but the log
  records the failure. \<open>resolveMany\<close> is rejected with it when the modules requested
  before this one resolved: the graph build is aborted.
\<close>

theorem resolve_rejects_without_commit:
  assumes "ModuleType type_key = Some moduleType"
    and "js_substringFrom name (js_lastIndexOf name ''-'' + 1) \<noteq> []"
    and "getModulePath env rs path name moduleType = Inr modulePath"
    and "rs_readPackageDetails rs modulePath = Inr pkg"
    and "resolveRepository env rs extension (t_name moduleType) (pk_name pkg) modulePath
           = (repository, warnings)"
    and "r_commit repository = None"
    and "\<not> r_dirty repository"
  shows "resolve env rs browserName extension path type_key name
           = (Inl RejectedWithoutReason,
              warnings @ [(LogDebug, RepositoryIs name repository),
                          (LogError, InvalidRepositoryStatus (pk_name pkg))])
       \<and> (\<forall>before after.
             module_requests extension = before @ (type_key, name) # after
             \<and> (\<forall>(t, n) \<in> set before.
                   \<not> isl (fst (resolve env rs browserName extension path t n)))
             \<longrightarrow> fst (resolveMany env rs path browserName extension) = Inl RejectedWithoutReason)"
proof -
  have r: "resolve env rs browserName extension path type_key name
           = (Inl RejectedWithoutReason,
              warnings @ [(LogDebug, RepositoryIs name repository),
                          (LogError, InvalidRepositoryStatus (pk_name pkg))])"
    using assms by (simp add: resolve_def)
  have m: "fst (resolveMany env rs path browserName extension) = Inl RejectedWithoutReason"
    if req: "module_requests extension = before @ (type_key, name) # after"
      and ok: "\<forall>(t, n) \<in> set before. \<not> isl (fst (resolve env rs browserName extension path t n))"
    for before after
  proof -
    let ?f = "\<lambda>(type_key, name). resolve env rs browserName extension path type_key name"
    have 1: "\<forall>x \<in> set before. \<not> isl (fst (?f x))" using ok by auto
    have 2: "fst (?f (type_key, name)) = Inl RejectedWithoutReason" using r by simp
    have "fst (runSequential (before @ (type_key, name) # after) ?f) = Inl RejectedWithoutReason"
      using 1 2 by (rule runSequential_first_failure)
    then show ?thesis
      unfolding resolveMany_def req
      by (cases "runSequential (before @ (type_key, name) # after) ?f") (auto split: sum.splits)
  qed
  show ?thesis using r m by blast
qed

lemma lastfm_rejected:
  "resolve module_files local_resolver ''chrome'' radon_extension ''/ext''
          ''destinations'' ''neon-extension-destination-lastfm''
     = (Inl RejectedWithoutReason,
        [(LogDebug, RepositoryIs ''neon-extension-destination-lastfm'' empty_status),
         (LogError, InvalidRepositoryStatus ''neon-extension-destination-lastfm'')])"
  by code_simp

lemma build_tool_resolved:
  "\<not> isl (fst (resolve module_files local_resolver ''chrome'' radon_extension ''/ext''
          ''tool'' ''neon-extension-build''))"
  by code_simp

theorem resolve_rejects_without_commit_witness:
  "resolve module_files local_resolver ''chrome'' radon_extension ''/ext''
          ''destinations'' ''neon-extension-destination-lastfm''
     = (Inl RejectedWithoutReason,
        [(LogDebug, RepositoryIs ''neon-extension-destination-lastfm'' empty_status),
         (LogError, InvalidRepositoryStatus ''neon-extension-destination-lastfm'')])
   \<and> fst (resolveMany module_files local_resolver ''/ext'' ''chrome'' radon_extension)
       = Inl RejectedWithoutReason"
proof -
  let ?pkg = "\<lparr>pk_name = ''neon-extension-destination-lastfm'',
               pk_details = \<lparr>dependencies = [], devDependencies = [], peerDependencies = []\<rparr>\<rparr>"
  have 1: "ModuleType ''destinations''
             = Some \<lparr>t_name = ''destination'', t_directory = Some ''Destinations/''\<rparr>"
    by (simp add: ModuleType_def)
  have 2: "js_substringFrom ''neon-extension-destination-lastfm''
             (js_lastIndexOf ''neon-extension-destination-lastfm'' ''-'' + 1) \<noteq> []"
    by code_simp
  have 3: "getModulePath module_files local_resolver ''/ext'' ''neon-extension-destination-lastfm''
             \<lparr>t_name = ''destination'', t_directory = Some ''Destinations/''\<rparr>
           = Inr ''/ext/Destinations/neon-extension-destination-lastfm''"
    by code_simp
  have 4: "rs_readPackageDetails local_resolver
             ''/ext/Destinations/neon-extension-destination-lastfm'' = Inr ?pkg"
    by code_simp
  have 5: "resolveRepository module_files local_resolver radon_extension
             (t_name \<lparr>t_name = ''destination'', t_directory = Some ''Destinations/''\<rparr>)
             (pk_name ?pkg) ''/ext/Destinations/neon-extension-destination-lastfm''
           = (empty_status, [])"
    by code_simp
  have 6: "r_commit empty_status = None" and 7: "\<not> r_dirty empty_status"
    by (simp_all add: empty_status_def)
  have req: "module_requests radon_extension
               = [(''tool'', ''neon-extension-build'')]
                 @ (''destinations'', ''neon-extension-destination-lastfm'')
                 # [(''sources'', ''neon-extension-source-netflix'')]"
    by (simp add: module_requests_def radon_extension_def)
  have ok: "\<forall>(t, n) \<in> set [(''tool'', ''neon-extension-build'')].
              \<not> isl (fst (resolve module_files local_resolver ''chrome'' radon_extension ''/ext'' t n))"
    using build_tool_resolved by simp
  from resolve_rejects_without_commit [OF 1 2 3 4 5 6 7, of "''chrome''"]
  have r: "resolve module_files local_resolver ''chrome'' radon_extension ''/ext''
          ''destinations'' ''neon-extension-destination-lastfm''
     = (Inl RejectedWithoutReason,
        [] @ [(LogDebug, RepositoryIs ''neon-extension-destination-lastfm'' empty_status),
         (LogError, InvalidRepositoryStatus (pk_name ?pkg))])"
    and m: "\<forall>before after.
             module_requests radon_extension
               = before @ (''destinations'', ''neon-extension-destination-lastfm'') # after
             \<and> (\<forall>(t, n) \<in> set before.
                   \<not> isl (fst (resolve module_files local_resolver ''chrome'' radon_extension ''/ext'' t n)))
             \<longrightarrow> fst (resolveMany module_files local_resolver ''/ext'' ''chrome'' radon_extension)
                   = Inl RejectedWithoutReason"
    by blast+
  have "fst (resolveMany module_files local_resolver ''/ext'' ''chrome'' radon_extension)
          = Inl RejectedWithoutReason"
    using m req ok by blast
  then show ?thesis using r by simp
qed

text \<open>
  The specification has the resolution continue after this failure. It does not: of the
  build tool, a destination whose directory holds no repository and a source, the
  destination is rejected, \<open>resolveMany\<close> is rejected with it, and the source is never
  looked at (nothing is logged for it).
\<close>

theorem resolve_continues_counterexample:
  "resolve module_files local_resolver ''chrome'' radon_extension ''/ext''
          ''destinations'' ''neon-extension-destination-lastfm''
     = (Inl RejectedWithoutReason,
        [(LogDebug, RepositoryIs ''neon-extension-destination-lastfm'' empty_status),
         (LogError, InvalidRepositoryStatus ''neon-extension-destination-lastfm'')])
   \<and> resolveMany module_files local_resolver ''/ext'' ''chrome'' radon_extension
     = (Inl RejectedWithoutReason,
        [(LogDebug, RepositoryIs ''neon-extension-build'' committed_status),
         (LogDebug, RepositoryIs ''neon-extension-destination-lastfm'' empty_status),
         (LogError, InvalidRepositoryStatus ''neon-extension-destination-lastfm'')])"
  by code_simp

end
